theory Spec2Isabelle
  imports Main "HOL-Library.Word" "HOL-Library.AList"
begin

unbundle bit_operations_syntax

section \<open>Bytes, 16-bit values and errors\<close>

text \<open>
  The converters read binary files into Python \<open>bytes\<close> and decode them with
  \<open>struct.unpack\<close>. A byte is an 8-bit word, an unpacked \<open>H\<close> field a 16-bit word.
  Values that Python goes on computing with as unbounded integers are read with \<open>uint\<close>.
\<close>

type_synonym byte = "8 word"
type_synonym u16 = "16 word"

datatype error = ValueError | KeyError | StructError | IndexError | ZlibError

text \<open>\<open>struct.unpack('<H', bytes([lo, hi]))\<close>: little-endian.\<close>

definition u16_le :: "byte \<Rightarrow> byte \<Rightarrow> u16" where
  "u16_le lo hi = ucast lo OR push_bit 8 (ucast hi)"

section \<open>Tile bitfields (convert_map_8x8.py, render_tileset_with_palettes.py)\<close>

record TileRef =
  gid :: int
  h_flip :: bool
  v_flip :: bool

text \<open>
  \<open>parse_tile\<close>, the local function of \<open>load_metatiles_from_pokeemerald\<close>:
  \<open>tile_idx = raw & 0x3FF\<close>, \<open>gid = tile_idx + 1\<close>, \<open>h_flip = bool(raw & 0x400)\<close>,
  \<open>v_flip = bool(raw & 0x800)\<close>.
\<close>

definition parse_tile :: "u16 \<Rightarrow> TileRef" where
  "parse_tile raw =
     (let tile_idx = uint (raw AND 0x3FF) in
      \<lparr>gid = tile_idx + 1, h_flip = (raw AND 0x400 \<noteq> 0), v_flip = (raw AND 0x800 \<noteq> 0)\<rparr>)"

text \<open>
  The two fields that \<open>get_tile_palette_index\<close> reads from a raw tile:
  \<open>tile_id = raw_tile & 0x3FF\<close> and \<open>palette = (raw_tile >> 12) & 0xF\<close>.
\<close>

definition tile_id_of :: "u16 \<Rightarrow> int" where
  "tile_id_of raw_tile = uint (raw_tile AND 0x3FF)"

definition palette_of :: "u16 \<Rightarrow> int" where
  "palette_of raw_tile = uint (drop_bit 12 raw_tile AND 0xF)"

text \<open>
  The packing that the specification's round trip speaks of (the converters only decode):
  the four decoded fields put back at their bit positions.
\<close>

definition pack_tile_bitfield :: "int \<Rightarrow> bool \<Rightarrow> bool \<Rightarrow> int \<Rightarrow> int" where
  "pack_tile_bitfield tile_index hf vf palette_key =
     tile_index OR (if hf then 0x400 else 0) OR (if vf then 0x800 else 0)
       OR push_bit 12 palette_key"

section \<open>Palette-baked rendering (render_tileset_with_palettes.py)\<close>

text \<open>
  \<open>struct.unpack\<close> of consecutive little-endian \<open>H\<close> fields. The callers below pass
  slices of an even, known length.
\<close>

fun unpack_u16s :: "byte list \<Rightarrow> u16 list" where
  "unpack_u16s (lo # hi # rest) = u16_le lo hi # unpack_u16s rest"
| "unpack_u16s _ = []"

text \<open>
  \<open>get_tile_palette_index\<close>. The inner loop runs over the 8 raw tiles of one metatile
  and returns at the first whose tile id equals \<open>tile_idx\<close>; the outer loop runs over
  \<open>i\<close> in \<open>range(len(data) // 16)\<close> and unpacks \<open>data[i*16 : i*16+16]\<close>; when nothing
  matches the function returns 0.
\<close>

fun scan_raw_tiles :: "u16 list \<Rightarrow> int \<Rightarrow> int option" where
  "scan_raw_tiles [] tile_idx = None"
| "scan_raw_tiles (raw_tile # rest) tile_idx =
     (let tile_id = tile_id_of raw_tile; palette = palette_of raw_tile
      in if tile_id = tile_idx then Some palette else scan_raw_tiles rest tile_idx)"

definition raw_tiles_at :: "byte list \<Rightarrow> nat \<Rightarrow> u16 list" where
  "raw_tiles_at data i = (let offset = i * 16 in unpack_u16s (take 16 (drop offset data)))"

fun scan_metatiles :: "byte list \<Rightarrow> int \<Rightarrow> nat list \<Rightarrow> int" where
  "scan_metatiles data tile_idx [] = 0"
| "scan_metatiles data tile_idx (i # rest) =
     (case scan_raw_tiles (raw_tiles_at data i) tile_idx of
        Some palette \<Rightarrow> palette
      | None \<Rightarrow> scan_metatiles data tile_idx rest)"

definition get_tile_palette_index :: "byte list \<Rightarrow> int \<Rightarrow> int" where
  "get_tile_palette_index data tile_idx =
     scan_metatiles data tile_idx [0..<length data div 16]"

text \<open>
  The table of metatile records that the scan walks: record \<open>i\<close> is the 8 raw tiles
  unpacked from bytes \<open>16 i\<close> to \<open>16 i + 15\<close>, for every whole record of the file.
\<close>

definition metatile_records :: "byte list \<Rightarrow> u16 list list" where
  "metatile_records data = map (raw_tiles_at data) [0..<length data div 16]"

text \<open>
  The body of the pixel loop of \<open>render_tileset_with_palettes\<close>: a palette is a list of
  (r, g, b) triples, a colour index one of the 4-bit values read from the image.
\<close>

type_synonym rgb = "int \<times> int \<times> int"
type_synonym rgba = "int \<times> int \<times> int \<times> int"

definition pixel_rgba :: "rgb list \<Rightarrow> nat \<Rightarrow> rgba" where
  "pixel_rgba palette color_idx =
     (if color_idx = 0 then (0, 0, 0, 0)
      else if color_idx < length palette then
        (case palette ! color_idx of (r, g, b) \<Rightarrow> (r, g, b, 255))
      else (0, 0, 0, 255))"

section \<open>Border pattern (border_tile_fix.py)\<close>

text \<open>
  \<open>get_border_metatile\<close>: a pattern that does not have 4 elements raises ValueError;
  otherwise the element at \<open>((x + 1) & 1) + (((y + 1) & 1) * 2)\<close>, an index in 0..3.
\<close>

definition get_border_metatile :: "int list \<Rightarrow> int \<Rightarrow> int \<Rightarrow> error + int" where
  "get_border_metatile border_tiles x y =
     (if length border_tiles \<noteq> 4 then Inl ValueError
      else let i = ((x + 1) AND 1) + (((y + 1) AND 1) * 2)
           in Inr (border_tiles ! nat i))"

section \<open>Per-cell metadata (convert_map_8x8.py)\<close>

text \<open>
  The four properties that \<open>convert_pokeemerald_map\<close> writes for every map cell into the
  MetatileData object layer, from the cell's raw 16-bit value.
\<close>

record cell_props =
  metatile_id :: int
  collision_bits :: int
  is_solid :: bool
  elevation :: int

definition metatile_props :: "u16 \<Rightarrow> cell_props" where
  "metatile_props raw_value =
     (let mid = uint (raw_value AND 0x3FF);
          cb = uint (drop_bit 10 raw_value AND 0x3);
          el = uint (drop_bit 12 raw_value AND 0xF)
      in \<lparr>metatile_id = mid, collision_bits = cb, is_solid = (cb = 3), elevation = el\<rparr>)"

section \<open>Metatile tables of the map converter (convert_map_8x8.py)\<close>

text \<open>
  The class \<open>MetatileAttributes\<close> of convert_map_8x8.py: a 16-bit value with the behavior
  in its low byte and the layer type in its top four bits.
\<close>

record MetatileAttributes =
  raw_value :: int
  behavior :: int
  layer_type :: int

definition MetatileAttributes_init :: "u16 \<Rightarrow> MetatileAttributes" where
  "MetatileAttributes_init raw =
     \<lparr>raw_value = uint raw, behavior = uint (raw AND 0x00FF),
      layer_type = uint (drop_bit 12 raw AND 0xF)\<rparr>"

text \<open>
  The attribute loop of \<open>load_metatiles_from_pokeemerald\<close>: it steps through the buffer two
  bytes at a time and appends a record only for a slice of length 2, so a last single byte
  adds nothing.
\<close>

fun parse_attributes :: "byte list \<Rightarrow> MetatileAttributes list" where
  "parse_attributes (lo # hi # rest) =
     MetatileAttributes_init (u16_le lo hi) # parse_attributes rest"
| "parse_attributes _ = []"

text \<open>
  \<open>MetatileDefinition\<close>. Its \<open>behavior_name\<close>, a name looked up from \<open>behavior\<close> in a
  fixed table, is left out. \<open>top_tiles or [TileRef(0, False, False)] * 4\<close> replaces a missing
  or empty list.
\<close>

record MetatileDefinition =
  metatile_id :: int
  tiles :: "TileRef list"
  top_tiles :: "TileRef list"
  behavior :: int
  layer_type :: int

definition MetatileDefinition_init ::
  "int \<Rightarrow> TileRef list \<Rightarrow> int \<Rightarrow> int \<Rightarrow> TileRef list option \<Rightarrow> MetatileDefinition" where
  "MetatileDefinition_init mid tls beh lt tops =
     \<lparr>metatile_id = mid, tiles = tls,
      top_tiles = (case tops of
          None \<Rightarrow> replicate 4 \<lparr>gid = 0, h_flip = False, v_flip = False\<rparr>
        | Some t \<Rightarrow> if t = [] then replicate 4 \<lparr>gid = 0, h_flip = False, v_flip = False\<rparr> else t),
      behavior = beh, layer_type = lt\<rparr>"

text \<open>
  \<open>TilesetData\<close>: a dictionary from metatile id to definition, kept as an association
  list in insertion order, as a Python dict is. \<open>add_metatile\<close> assigns under the
  definition's own id, \<open>get_metatile\<close> is \<open>dict.get\<close>.
\<close>

type_synonym TilesetData = "(int \<times> MetatileDefinition) list"

definition add_metatile :: "TilesetData \<Rightarrow> MetatileDefinition \<Rightarrow> TilesetData" where
  "add_metatile tileset metatile =
     AList.update (MetatileDefinition.metatile_id metatile) metatile tileset"

definition get_metatile :: "TilesetData \<Rightarrow> int \<Rightarrow> MetatileDefinition option" where
  "get_metatile tileset mid = map_of tileset mid"

text \<open>
  The body of the metatile loop of \<open>load_metatiles_from_pokeemerald\<close> for one id: 16 bytes
  at \<open>metatile_id * 16\<close> unpacked into 8 raw tiles, the first four the bottom layer, the
  last four the top layer; the attributes at the same index, or \<open>MetatileAttributes(0)\<close>
  when the attribute list is shorter.
\<close>

definition metatile_at :: "byte list \<Rightarrow> MetatileAttributes list \<Rightarrow> nat \<Rightarrow> MetatileDefinition" where
  "metatile_at metatiles_data attributes mid =
     (let offset = mid * 16;
          raw_tiles = unpack_u16s (take 16 (drop offset metatiles_data));
          bottom_refs = map parse_tile (take 4 raw_tiles);
          top_refs = map parse_tile (take 4 (drop 4 raw_tiles));
          attr = (if mid < length attributes then attributes ! mid
                  else MetatileAttributes_init 0)
      in MetatileDefinition_init (int mid) bottom_refs
           (MetatileAttributes.behavior attr) (MetatileAttributes.layer_type attr)
           (Some top_refs))"

text \<open>The loop over \<open>range(metatile_count)\<close>, with its \<open>break\<close>.\<close>

fun load_loop ::
  "byte list \<Rightarrow> MetatileAttributes list \<Rightarrow> nat list \<Rightarrow> TilesetData \<Rightarrow> TilesetData" where
  "load_loop metatiles_data attributes [] tileset = tileset"
| "load_loop metatiles_data attributes (mid # rest) tileset =
     (if mid * 16 + 16 > length metatiles_data then tileset
      else load_loop metatiles_data attributes rest
             (add_metatile tileset (metatile_at metatiles_data attributes mid)))"

text \<open>
  \<open>load_metatiles_from_pokeemerald\<close>. Each file is given as its content, or \<open>None\<close> when it
  does not exist: no metatile file gives the empty tileset, no attribute file the empty
  attribute list.
\<close>

definition load_metatiles_from_pokeemerald ::
  "byte list option \<Rightarrow> byte list option \<Rightarrow> TilesetData" where
  "load_metatiles_from_pokeemerald metatiles_bin attributes_bin =
     (case metatiles_bin of
        None \<Rightarrow> []
      | Some metatiles_data \<Rightarrow>
          (let attributes = (case attributes_bin of None \<Rightarrow> []
                             | Some attributes_data \<Rightarrow> parse_attributes attributes_data);
               metatile_count = length metatiles_data div 16
           in load_loop metatiles_data attributes [0..<metatile_count] []))"


section \<open>The map grid and its layers (convert_map_8x8.py)\<close>

text \<open>
  \<open>load_map_bin\<close>: \<open>struct.unpack\<close> of \<open>width * height\<close> little-endian 16-bit values
  from the first \<open>2 * width * height\<close> bytes, which fails on a shorter file, laid out in
  rows.
\<close>

definition load_map_bin :: "byte list \<Rightarrow> nat \<Rightarrow> nat \<Rightarrow> error + u16 list list" where
  "load_map_bin data width height =
     (let cell_count = width * height in
      if length (take (cell_count * 2) data) \<noteq> cell_count * 2 then Inl StructError
      else let raw_values = unpack_u16s (take (cell_count * 2) data)
           in Inr (map (\<lambda>y. map (\<lambda>x. raw_values ! (y * width + x)) [0..<width])
                     [0..<height]))"

text \<open>
  \<open>apply_flip\<close>: no reference, or one with gid 0, gives 0; otherwise the gid with the
  flip flags in bits 31 and 30.
\<close>

definition apply_flip :: "TileRef option \<Rightarrow> int" where
  "apply_flip tile_ref =
     (case tile_ref of
        None \<Rightarrow> 0
      | Some r \<Rightarrow>
          if gid r = 0 then 0
          else let g1 = (if h_flip r then gid r OR 0x80000000 else gid r)
               in (if v_flip r then g1 OR 0x40000000 else g1))"

text \<open>
  The body of the tile loop of \<open>convert_pokeemerald_map\<close> at tile position (x, y): the
  raw value of the map cell (x // 2, y // 2), its low ten bits as metatile id, the
  metatile's tile at \<open>(y % 2) * 2 + (x % 2)\<close> in each layer. The result is the pair of
  values appended to the bottom and to the top layer.
\<close>

definition layer_cell :: "TilesetData \<Rightarrow> u16 list list \<Rightarrow> nat \<Rightarrow> nat \<Rightarrow> int \<times> int" where
  "layer_cell tileset map_data x y =
     (let raw_value = map_data ! (y div 2) ! (x div 2);
          mid = uint (raw_value AND 0x3FF);
          tile_index = (y mod 2) * 2 + (x mod 2)
      in case get_metatile tileset mid of
           Some metatile \<Rightarrow>
             (apply_flip (if length (MetatileDefinition.tiles metatile) > tile_index
                          then Some (MetatileDefinition.tiles metatile ! tile_index) else None),
              apply_flip (if length (top_tiles metatile) > tile_index
                          then Some (top_tiles metatile ! tile_index) else None))
         | None \<Rightarrow> (apply_flip None, apply_flip None))"

definition tile_layers :: "TilesetData \<Rightarrow> u16 list list \<Rightarrow> int list \<times> int list" where
  "tile_layers tileset map_data =
     (let height_metatiles = length map_data;
          width_metatiles = (if height_metatiles > 0 then length (map_data ! 0) else 0);
          width_tiles = width_metatiles * 2;
          height_tiles = height_metatiles * 2;
          cells = concat (map (\<lambda>y. map (\<lambda>x. layer_cell tileset map_data x y) [0..<width_tiles])
                            [0..<height_tiles])
      in (map fst cells, map snd cells))"

text \<open>
  The combined tileset: every primary definition under its own id, then every secondary
  definition again under its key plus 512.
\<close>

definition combine_tilesets :: "TilesetData \<Rightarrow> TilesetData \<Rightarrow> TilesetData" where
  "combine_tilesets primary_tileset secondary_tileset =
     fold (\<lambda>(mid, metatile) combined.
             add_metatile combined
               (MetatileDefinition_init (mid + 512) (MetatileDefinition.tiles metatile)
                  (MetatileDefinition.behavior metatile)
                  (MetatileDefinition.layer_type metatile) (Some (top_tiles metatile))))
       secondary_tileset
       (fold (\<lambda>(mid, metatile) combined. add_metatile combined metatile) primary_tileset [])"

section \<open>Border files and the border fallback (border_tile_fix.py)\<close>

text \<open>
  \<open>load_border_bin\<close> reads at most 8 bytes and fails on fewer; the four values are masked
  to ten bits. The file is given as its content, the case of a missing file being decided by
  the caller.
\<close>

definition load_border_bin :: "byte list \<Rightarrow> error + int list" where
  "load_border_bin content =
     (let data = take 8 content in
      if length data < 8 then Inl ValueError
      else Inr (map (\<lambda>raw. uint (raw AND 0x3FF)) (unpack_u16s data)))"

text \<open>
  \<open>apply_border_fallback\<close>. \<open>border_tiles\<close> is optional, and \<open>if border_tiles\<close> also
  takes an empty list as absent. The inner loop reads \<open>map_data[y][x]\<close> for \<open>x\<close> below the
  length of the first row, which fails on a shorter row.
\<close>

fun fallback_row ::
  "int list \<Rightarrow> int list option \<Rightarrow> int \<Rightarrow> int \<Rightarrow> nat list \<Rightarrow> error + int list" where
  "fallback_row row border_tiles default_metatile y [] = Inr []"
| "fallback_row row border_tiles default_metatile y (x # rest) =
     (if x \<ge> length row then Inl IndexError
      else
        let mid = row ! x;
            replaced =
              (if mid \<le> 1 then
                 (case border_tiles of
                    None \<Rightarrow> Inr default_metatile
                  | Some b \<Rightarrow> if b = [] then Inr default_metatile
                              else get_border_metatile b (int x) y)
               else Inr mid)
        in case replaced of
             Inl e \<Rightarrow> Inl e
           | Inr m \<Rightarrow>
               (case fallback_row row border_tiles default_metatile y rest of
                  Inl e \<Rightarrow> Inl e
                | Inr r \<Rightarrow> Inr (m # r)))"

fun fallback_rows ::
  "int list list \<Rightarrow> int list option \<Rightarrow> int \<Rightarrow> nat \<Rightarrow> nat \<Rightarrow> error + int list list" where
  "fallback_rows [] border_tiles default_metatile width y = Inr []"
| "fallback_rows (row # rest) border_tiles default_metatile width y =
     (case fallback_row row border_tiles default_metatile (int y) [0..<width] of
        Inl e \<Rightarrow> Inl e
      | Inr r \<Rightarrow>
          (case fallback_rows rest border_tiles default_metatile width (Suc y) of
             Inl e \<Rightarrow> Inl e
           | Inr rs \<Rightarrow> Inr (r # rs)))"

definition apply_border_fallback ::
  "int list list \<Rightarrow> int list option \<Rightarrow> int \<Rightarrow> error + int list list" where
  "apply_border_fallback map_data border_tiles default_metatile =
     (let height = length map_data;
          width = (if height > 0 then length (map_data ! 0) else 0)
      in fallback_rows map_data border_tiles default_metatile width 0)"

text \<open>
  The parts of the map that \<open>convert_pokeemerald_map\<close> writes: the two tile layers,
  the border pattern as the value of the map property \<open>border_pattern_metatiles\<close> (absent
  when no pattern was loaded or it is empty), and the metadata of every cell, row by row
  (without the behavior name and layer type that are copied from the cell's metatile).
  The border file is given as its content, or \<open>None\<close> when it does not exist; a failure
  of \<open>load_border_bin\<close> is caught and leaves no pattern. A tileset is a pair of file
  contents, the secondary one optional.
\<close>

record converted_map =
  bottom_layer_data :: "int list"
  top_layer_data :: "int list"
  border_pattern_metatiles :: "int list option"
  metatile_objects :: "cell_props list"

definition map_tileset ::
  "byte list option \<times> byte list option
     \<Rightarrow> (byte list option \<times> byte list option) option \<Rightarrow> TilesetData" where
  "map_tileset primary secondary =
     (let primary_tileset = load_metatiles_from_pokeemerald (fst primary) (snd primary);
          secondary_tileset =
            (case secondary of
               None \<Rightarrow> []
             | Some sec \<Rightarrow> load_metatiles_from_pokeemerald (fst sec) (snd sec))
      in combine_tilesets primary_tileset secondary_tileset)"

definition convert_pokeemerald_map ::
  "nat \<Rightarrow> nat \<Rightarrow> byte list \<Rightarrow> byte list option
     \<Rightarrow> byte list option \<times> byte list option
     \<Rightarrow> (byte list option \<times> byte list option) option
     \<Rightarrow> error + converted_map" where
  "convert_pokeemerald_map width height map_bin border_bin primary secondary =
     (case load_map_bin map_bin width height of
        Inl e \<Rightarrow> Inl e
      | Inr map_data \<Rightarrow>
          (let border_tiles =
                 (case border_bin of
                    None \<Rightarrow> None
                  | Some content \<Rightarrow>
                      (case load_border_bin content of Inl e \<Rightarrow> None | Inr b \<Rightarrow> Some b));
               tileset = map_tileset primary secondary;
               layers = tile_layers tileset map_data
           in Inr \<lparr>bottom_layer_data = fst layers, top_layer_data = snd layers,
                   border_pattern_metatiles =
                     (case border_tiles of None \<Rightarrow> None
                      | Some b \<Rightarrow> if b = [] then None else Some b),
                   metatile_objects = map metatile_props (concat map_data)\<rparr>))"

section \<open>Metatile tables of the tileset converter (convert_tileset_8x8.py)\<close>

text \<open>
  The class \<open>MetatileAttributes\<close> of convert_tileset_8x8.py, a 4-byte structure:
  behavior (u16), then a u16 holding terrain (bits 0-3), encounter type (bits 4-6) and
  layer type (bits 7-8). \<open>struct.unpack('<HH', data)\<close> fails unless \<open>data\<close> has 4
  bytes.
\<close>

record TilesetMetatileAttributes =
  behavior :: int
  terrain :: int
  encounter_type :: int
  layer_type :: int

definition attributes_from_bytes :: "byte list \<Rightarrow> error + TilesetMetatileAttributes" where
  "attributes_from_bytes data =
     (if length data \<noteq> 4 then Inl StructError
      else let behavior = u16_le (data ! 0) (data ! 1);
               terrain_and_layer = u16_le (data ! 2) (data ! 3)
           in Inr \<lparr>behavior = uint behavior,
                   terrain = uint (terrain_and_layer AND 0x000F),
                   encounter_type = uint (drop_bit 4 terrain_and_layer AND 0x0007),
                   layer_type = uint (drop_bit 7 terrain_and_layer AND 0x0003)\<rparr>)"

text \<open>
  The class \<open>Metatile\<close> of convert_tileset_8x8.py: 4 tile values and the attributes.
  \<open>struct.unpack('<4H', data)\<close> fails unless \<open>data\<close> has 8 bytes; the constructor
  rejects a tile list that does not have 4 elements.
\<close>

record Metatile =
  tiles :: "int list"
  attributes :: TilesetMetatileAttributes

definition Metatile_from_bytes ::
  "byte list \<Rightarrow> TilesetMetatileAttributes \<Rightarrow> error + Metatile" where
  "Metatile_from_bytes data attrs =
     (if length data \<noteq> 8 then Inl StructError
      else let tls = map uint (unpack_u16s data)
           in if length tls \<noteq> 4 then Inl ValueError
              else Inr \<lparr>tiles = tls, attributes = attrs\<rparr>)"

text \<open>\<open>range(0, n, k)\<close> for a positive step.\<close>

definition range_step :: "nat \<Rightarrow> nat \<Rightarrow> nat list" where
  "range_step n k = map (\<lambda>j. j * k) [0..<(n + k - 1) div k]"

text \<open>
  The attribute part of \<open>load_metatiles\<close>: a buffer shorter than 4 bytes per expected
  metatile gets \<open>expected_metatiles - len(attributes_data) // 4\<close> zero records appended;
  the loop then reads 4-byte slices at the multiples of 4 below
  \<open>min(len(attributes_data), expected_attributes_size)\<close>, padding a shorter slice with
  zeros.
\<close>

fun parse_attribute_loop ::
  "byte list \<Rightarrow> nat list \<Rightarrow> error + TilesetMetatileAttributes list" where
  "parse_attribute_loop attributes_data [] = Inr []"
| "parse_attribute_loop attributes_data (i # rest) =
     (let attr_bytes = take 4 (drop i attributes_data);
          parsed = (if length attr_bytes = 4 then attributes_from_bytes attr_bytes
                    else attributes_from_bytes
                           (attr_bytes @ replicate (4 - length attr_bytes) 0))
      in case parsed of
           Inl e \<Rightarrow> Inl e
         | Inr a \<Rightarrow>
             (case parse_attribute_loop attributes_data rest of
                Inl e \<Rightarrow> Inl e
              | Inr as \<Rightarrow> Inr (a # as)))"

definition pad_attributes :: "byte list \<Rightarrow> byte list \<Rightarrow> byte list" where
  "pad_attributes metatiles_data attributes_data =
     (let expected_metatiles = length metatiles_data div 8;
          expected_attributes_size = expected_metatiles * 4
      in if length attributes_data < expected_attributes_size
         then attributes_data
                @ concat (replicate (expected_metatiles - length attributes_data div 4)
                            [0, 0, 0, 0])
         else attributes_data)"

definition load_attributes ::
  "byte list \<Rightarrow> byte list \<Rightarrow> error + TilesetMetatileAttributes list" where
  "load_attributes metatiles_data attributes_data =
     (let expected_metatiles = length metatiles_data div 8;
          expected_attributes_size = expected_metatiles * 4;
          padded = pad_attributes metatiles_data attributes_data
      in parse_attribute_loop padded
           (range_step (min (length padded) expected_attributes_size) 4))"

text \<open>
  The metatile part of \<open>load_metatiles\<close>: 8-byte slices at the multiples of 8 below the
  length of the buffer, each with the attributes of its index, or with
  \<open>MetatileAttributes(0, 0, 0, 0)\<close> when there are none.
\<close>

fun parse_metatile_loop ::
  "byte list \<Rightarrow> TilesetMetatileAttributes list \<Rightarrow> nat list \<Rightarrow> error + Metatile list" where
  "parse_metatile_loop metatiles_data attrs [] = Inr []"
| "parse_metatile_loop metatiles_data attrs (i # rest) =
     (let metatile_bytes = take 8 (drop i metatiles_data);
          metatile_idx = i div 8;
          a = (if metatile_idx < length attrs then attrs ! metatile_idx
               else \<lparr>behavior = 0, terrain = 0, encounter_type = 0, layer_type = 0\<rparr>)
      in case Metatile_from_bytes metatile_bytes a of
           Inl e \<Rightarrow> Inl e
         | Inr m \<Rightarrow>
             (case parse_metatile_loop metatiles_data attrs rest of
                Inl e \<Rightarrow> Inl e
              | Inr ms \<Rightarrow> Inr (m # ms)))"

text \<open>
  \<open>load_metatiles\<close>. The attribute file is given as its content, or \<open>None\<close> when it does
  not exist, which stands for 4 zero bytes per metatile.
\<close>

definition load_metatiles :: "byte list \<Rightarrow> byte list option \<Rightarrow> error + Metatile list" where
  "load_metatiles metatiles_data attributes_file =
     (let attributes_data =
            (case attributes_file of
               Some content \<Rightarrow> content
             | None \<Rightarrow> concat (replicate (length metatiles_data div 8) [0, 0, 0, 0]))
      in case load_attributes metatiles_data attributes_data of
           Inl e \<Rightarrow> Inl e
         | Inr attrs \<Rightarrow>
             parse_metatile_loop metatiles_data attrs (range_step (length metatiles_data) 8))"

section \<open>Reading an indexed PNG (render_tileset_with_palettes.py)\<close>

text \<open>
  \<open>struct.unpack('>I', data)\<close>: a big-endian unsigned 32-bit value, which fails unless
  \<open>data\<close> has 4 bytes. A slice \<open>data[a:b]\<close> with \<open>a \<le> b\<close> is
  \<open>take (b - a) (drop a data)\<close> and may come out short.
\<close>

definition unpack_be32 :: "byte list \<Rightarrow> error + nat" where
  "unpack_be32 data =
     (if length data \<noteq> 4 then Inl StructError
      else Inr (foldl (\<lambda>acc b. acc * 256 + unat b) 0 data))"

definition py_slice :: "nat \<Rightarrow> nat \<Rightarrow> 'a list \<Rightarrow> 'a list" where
  "py_slice a b data = take (b - a) (drop a data)"

definition PNG_signature :: "byte list" where
  "PNG_signature = [0x89, 0x50, 0x4E, 0x47, 0x0D, 0x0A, 0x1A, 0x0A]"

definition PLTE :: "byte list" where
  "PLTE = [0x50, 0x4C, 0x54, 0x45]"

definition IDAT :: "byte list" where
  "IDAT = [0x49, 0x44, 0x41, 0x54]"

text \<open>
  The chunk loop of \<open>read_png_indexed_data\<close>, from position \<open>pos\<close> with the palette
  chunk and the image data found so far. Every round moves on by at least 12 bytes.
\<close>

function walk_chunks ::
  "byte list \<Rightarrow> nat \<Rightarrow> byte list option \<times> byte list
     \<Rightarrow> error + (byte list option \<times> byte list)" where
  "walk_chunks png_data pos found =
     (if pos < length png_data then
        (case unpack_be32 (py_slice pos (pos + 4) png_data) of
           Inl e \<Rightarrow> Inl e
         | Inr len \<Rightarrow>
             (let chunk_type = py_slice (pos + 4) (pos + 8) png_data;
                  chunk_data = py_slice (pos + 8) (pos + 8 + len) png_data;
                  found' = (if chunk_type = PLTE then (Some chunk_data, snd found)
                            else if chunk_type = IDAT then (fst found, snd found @ chunk_data)
                            else found)
              in walk_chunks png_data (pos + (12 + len)) found'))
      else Inr found)"
  by pat_completeness auto
termination
  by (relation "measure (\<lambda>(png_data, pos, found). length png_data - pos)") auto

text \<open>
  One scanline of 4-bit pixels: two per byte, the high nibble first, cut to the width.
\<close>

definition unpack_scanline :: "nat \<Rightarrow> byte list \<Rightarrow> nat list" where
  "unpack_scanline width scanline_data =
     take width (concat (map (\<lambda>byte_val. [unat (drop_bit 4 byte_val AND 0x0F),
                                             unat (byte_val AND 0x0F)]) scanline_data))"

text \<open>
  \<open>read_png_indexed_data\<close>, on the content of the file. \<open>zlib.decompress\<close> is a
  parameter: it gives the decompressed bytes or fails. The result is width, height, the
  rows of pixels and the content of the last palette chunk, if any.
\<close>

definition read_png_indexed_data ::
  "(byte list \<Rightarrow> error + byte list) \<Rightarrow> byte list
     \<Rightarrow> error + (nat \<times> nat \<times> nat list list \<times> byte list option)" where
  "read_png_indexed_data zlib_decompress png_data =
     (if take 8 png_data \<noteq> PNG_signature then Inl ValueError
      else case unpack_be32 (py_slice 16 20 png_data) of
        Inl e \<Rightarrow> Inl e
      | Inr width \<Rightarrow>
      (case unpack_be32 (py_slice 20 24 png_data) of
        Inl e \<Rightarrow> Inl e
      | Inr height \<Rightarrow>
      (case walk_chunks png_data 8 (None, []) of
        Inl e \<Rightarrow> Inl e
      | Inr (palette_data, idat_data) \<Rightarrow>
      (case zlib_decompress idat_data of
        Inl e \<Rightarrow> Inl e
      | Inr raw_data \<Rightarrow>
          (let bytes_per_scanline = (width + 1) div 2;
               pixels = map (\<lambda>y.
                   let scanline_start = y * (bytes_per_scanline + 1) + 1;
                       scanline_data = py_slice scanline_start
                                         (scanline_start + bytes_per_scanline) raw_data
                   in unpack_scanline width scanline_data) [0..<height]
           in Inr (width, height, pixels, palette_data))))))"

section \<open>Palette lookup and the rendering job (render_tileset_with_palettes.py, apply_palettes.py)\<close>

text \<open>
  The loaded palettes: a dictionary from the number in a palette file's name to its
  colours, kept as an association list.
\<close>

type_synonym palette_store = "(int \<times> rgb list) list"

text \<open>
  The lookup of \<open>render_tileset_with_palettes\<close>, \<open>palettes.get(palette_idx, palettes[0])\<close>:
  the default \<open>palettes[0]\<close> is evaluated first and fails when the store has no key 0.
\<close>

definition tile_palette :: "palette_store \<Rightarrow> int \<Rightarrow> error + rgb list" where
  "tile_palette palettes palette_idx =
     (case map_of palettes 0 of
        None \<Rightarrow> Inl KeyError
      | Some default_entry \<Rightarrow>
          Inr (case map_of palettes palette_idx of Some p \<Rightarrow> p | None \<Rightarrow> default_entry))"

text \<open>
  The lookup of \<open>apply_palette_to_png\<close>: an empty store is a ValueError; otherwise
  \<open>palettes.get(0, palettes[min(palettes.keys())])\<close>.
\<close>

definition default_palette :: "palette_store \<Rightarrow> error + rgb list" where
  "default_palette palettes =
     (case map fst palettes of
        [] \<Rightarrow> Inl ValueError
      | k # ks \<Rightarrow>
          (case map_of palettes (fold min ks k) of
             None \<Rightarrow> Inl KeyError
           | Some lowest \<Rightarrow> Inr (case map_of palettes 0 of Some p \<Rightarrow> p | None \<Rightarrow> lowest)))"

text \<open>
  Results of a loop whose rounds may fail, in order: the first failure ends the loop.
\<close>

fun collect :: "(error + 'a) list \<Rightarrow> error + 'a list" where
  "collect [] = Inr []"
| "collect (r # rs) =
     (case r of
        Inl e \<Rightarrow> Inl e
      | Inr x \<Rightarrow> (case collect rs of Inl e \<Rightarrow> Inl e | Inr xs \<Rightarrow> Inr (x # xs)))"

text \<open>
  One tile's share of one output row in \<open>render_tileset_with_palettes\<close>: the palette of
  the tile, then its 8 pixels of row \<open>y\<close>, each as r, g, b, a. Reading \<open>pixels[y][x]\<close>
  fails beyond the end of a row.
\<close>

definition tile_row_rgba ::
  "palette_store \<Rightarrow> byte list \<Rightarrow> int \<Rightarrow> nat list list \<Rightarrow> nat \<Rightarrow> nat \<Rightarrow> nat \<Rightarrow> nat
     \<Rightarrow> error + int list" where
  "tile_row_rgba palettes metatiles_bin tile_offset pixels tiles_per_row tile_y y tile_x =
     (let tile_idx_in_png = tile_y * tiles_per_row + tile_x;
          tile_idx_absolute = int tile_idx_in_png + tile_offset;
          palette_idx = get_tile_palette_index metatiles_bin tile_idx_absolute
      in case tile_palette palettes palette_idx of
           Inl e \<Rightarrow> Inl e
         | Inr palette \<Rightarrow>
             map_sum id concat
               (collect (map (\<lambda>col_in_tile.
                    let x = tile_x * 8 + col_in_tile
                    in if y < length pixels \<and> x < length (pixels ! y)
                       then (case pixel_rgba palette (pixels ! y ! x) of
                               (r, g, b, a) \<Rightarrow> Inr [r, g, b, a])
                       else Inl IndexError) [0..<8])))"

definition render_rows ::
  "palette_store \<Rightarrow> byte list \<Rightarrow> int \<Rightarrow> nat \<Rightarrow> nat \<Rightarrow> nat list list \<Rightarrow> error + int list list" where
  "render_rows palettes metatiles_bin tile_offset width height pixels =
     (let tile_size = 8;
          tiles_per_row = width div tile_size;
          tiles_per_col = height div tile_size
      in collect (concat (map (\<lambda>tile_y. map (\<lambda>row_in_tile.
            let y = tile_y * tile_size + row_in_tile
            in map_sum id concat
                 (collect (map (tile_row_rgba palettes metatiles_bin tile_offset pixels
                                  tiles_per_row tile_y y) [0..<tiles_per_row])))
            [0..<tile_size]) [0..<tiles_per_col])))"

text \<open>
  The scanlines that \<open>write_rgba_png\<close> builds, a filter byte 0 before each row:
  \<open>bytearray.extend\<close> fails on a value outside 0..255. The compression and the chunks
  written around the result are left out.
\<close>

definition write_rgba_png_raw :: "int list list \<Rightarrow> error + byte list" where
  "write_rgba_png_raw rgba_pixels =
     (if list_all (list_all (\<lambda>v. 0 \<le> v \<and> v < 256)) rgba_pixels
      then Inr (concat (map (\<lambda>row. 0 # map word_of_int row) rgba_pixels))
      else Inl ValueError)"

text \<open>
  What \<open>render_tileset_with_palettes\<close> prints, one constructor per \<open>print\<close> statement of
  the function, in the order of the source, the paths and numbers in the lines left out:
  "Loading indexed PNG", "Loading palettes from", "Loaded n palettes", "Using tile offset"
  and "[OK] Rendered tileset to". The functions it calls print nothing.
\<close>

datatype message =
  Loading_indexed_PNG | Loading_palettes_from | Loaded_palettes | Using_tile_offset
  | Rendered_tileset

text \<open>
  \<open>render_tileset_with_palettes\<close> on the contents of its files and the loaded palettes:
  the lines printed and the scanlines written, or the first failure.
\<close>

definition render_tileset_with_palettes ::
  "(byte list \<Rightarrow> error + byte list) \<Rightarrow> byte list \<Rightarrow> palette_store \<Rightarrow> byte list \<Rightarrow> int
     \<Rightarrow> error + (message list \<times> byte list)" where
  "render_tileset_with_palettes zlib_decompress tiles_png palettes metatiles_bin tile_offset =
     (case read_png_indexed_data zlib_decompress tiles_png of
        Inl e \<Rightarrow> Inl e
      | Inr (width, height, pixels, embedded_palette) \<Rightarrow>
          (let printed = [Loading_indexed_PNG, Loading_palettes_from, Loaded_palettes]
                           @ (if tile_offset > 0 then [Using_tile_offset] else [])
           in case render_rows palettes metatiles_bin tile_offset width height pixels of
                Inl e \<Rightarrow> Inl e
              | Inr rgba_pixels \<Rightarrow>
                  (case write_rgba_png_raw rgba_pixels of
                     Inl e \<Rightarrow> Inl e
                   | Inr raw_data \<Rightarrow> Inr (printed @ [Rendered_tileset], raw_data))))"

section \<open>Facts about masks on 16-bit values\<close>

lemma and_3ff: "(v::u16) AND 0x3FF = take_bit 10 v"
proof -
  have "(0x3FF::u16) = mask 10" by (simp add: mask_eq_exp_minus_1)
  then show ?thesis by (simp only: take_bit_eq_mask)
qed

lemma and_400: "((v::u16) AND 0x400 \<noteq> 0) = bit v 10"
proof -
  have "(0x400::u16) = 2 ^ 10" by simp
  then show ?thesis by (simp only: and_exp_eq_0_iff_not_bit) simp
qed

lemma and_800: "((v::u16) AND 0x800 \<noteq> 0) = bit v 11"
proof -
  have "(0x800::u16) = 2 ^ 11" by simp
  then show ?thesis by (simp only: and_exp_eq_0_iff_not_bit) simp
qed

lemma and_f_top: "drop_bit 12 (v::u16) AND 0xF = drop_bit 12 v"
proof -
  have "(0xF::u16) = mask 4" by (simp add: mask_eq_exp_minus_1)
  then have "drop_bit 12 v AND 0xF = take_bit 4 (drop_bit 12 v)"
    by (simp only: take_bit_eq_mask)
  also have "\<dots> = drop_bit 12 v"
    by (rule bit_eqI) (auto simp add: bit_simps dest: bit_imp_le_length)
  finally show ?thesis .
qed

lemma bit_int_400: "bit (0x400::int) n \<longleftrightarrow> n = 10"
proof -
  have "(0x400::int) = 2 ^ 10" by simp
  then show ?thesis by (simp only: bit_exp_iff) simp
qed

lemma bit_int_800: "bit (0x800::int) n \<longleftrightarrow> n = 11"
proof -
  have "(0x800::int) = 2 ^ 11" by simp
  then show ?thesis by (simp only: bit_exp_iff) simp
qed

lemma uint_and_3ff: "uint ((v::u16) AND 0x3FF) = uint v mod 1024"
  by (simp add: and_3ff unsigned_take_bit_eq take_bit_eq_mod uint_mod)

lemma uint_top_nibble: "uint (drop_bit 12 (v::u16) AND 0xF) = uint v div 4096"
  by (simp only: and_f_top) (simp add: unsigned_drop_bit_eq drop_bit_eq_div uint_div)

lemma uint_collision: "uint (drop_bit 10 (v::u16) AND 0x3) = uint v div 1024 mod 4"
proof -
  have "(0x3::u16) = mask 2" by (simp add: mask_eq_exp_minus_1)
  then have "drop_bit 10 v AND 0x3 = take_bit 2 (drop_bit 10 v)"
    by (simp only: take_bit_eq_mask)
  then show ?thesis
    by (simp add: unsigned_take_bit_eq unsigned_drop_bit_eq drop_bit_eq_div take_bit_eq_mod
        uint_div uint_mod)
qed

lemma mod_4_eq_3_iff: "((x::int) mod 4 = 3) = (odd x \<and> odd (x div 2))"
  by presburger

lemma pack_decoded_fields:
  "pack_tile_bitfield (tile_id_of v) (h_flip (parse_tile v)) (v_flip (parse_tile v))
     (palette_of v) = uint v"
proof (rule bit_eqI)
  fix n :: nat
  have "n < 10 \<or> n = 10 \<or> n = 11 \<or> 12 \<le> n" by arith
  then show "bit (pack_tile_bitfield (tile_id_of v) (h_flip (parse_tile v))
      (v_flip (parse_tile v)) (palette_of v)) n = bit (uint v) n"
    by (auto simp add: pack_tile_bitfield_def tile_id_of_def parse_tile_def palette_of_def
        Let_def and_3ff and_400 and_800 and_f_top bit_simps bit_int_400 bit_int_800
        dest: bit_imp_le_length)
qed

section \<open>The palette scan\<close>

lemma find_append:
  "find P (xs @ ys) = (case find P xs of None \<Rightarrow> find P ys | Some x \<Rightarrow> Some x)"
  by (induction xs) simp_all

lemma scan_raw_tiles_find:
  "scan_raw_tiles raws t = map_option palette_of (find (\<lambda>raw. tile_id_of raw = t) raws)"
  by (induction raws) (simp_all add: Let_def)

lemma scan_metatiles_find:
  "scan_metatiles data t is =
     (case find (\<lambda>raw. tile_id_of raw = t) (concat (map (raw_tiles_at data) is)) of
        Some raw \<Rightarrow> palette_of raw
      | None \<Rightarrow> 0)"
proof (induction "is")
  case Nil
  then show ?case by simp
next
  case (Cons i rest)
  show ?case
  proof (cases "find (\<lambda>raw. tile_id_of raw = t) (raw_tiles_at data i)")
    case None
    with Cons show ?thesis
      by (simp add: scan_raw_tiles_find find_append)
  next
    case (Some raw)
    then show ?thesis
      by (simp add: scan_raw_tiles_find find_append)
  qed
qed

lemma unpack_u16s_append:
  "even (length xs) \<Longrightarrow> unpack_u16s (xs @ ys) = unpack_u16s xs @ unpack_u16s ys"
  by (induction xs rule: unpack_u16s.induct) auto

lemma concat_raw_tiles:
  "16 * n \<le> length data \<Longrightarrow>
   concat (map (raw_tiles_at data) [0..<n]) = unpack_u16s (take (16 * n) data)"
proof (induction n)
  case 0
  then show ?case by simp
next
  case (Suc n)
  have split: "16 * Suc n = 16 * n + 16" by simp
  have ev: "even (length (take (16 * n) data))"
    using Suc.prems by simp
  have "concat (map (raw_tiles_at data) [0..<Suc n]) =
      concat (map (raw_tiles_at data) [0..<n]) @ raw_tiles_at data n"
    by simp
  also have "concat (map (raw_tiles_at data) [0..<n]) = unpack_u16s (take (16 * n) data)"
    using Suc by simp
  also have "raw_tiles_at data n = unpack_u16s (take 16 (drop (16 * n) data))"
    by (simp add: raw_tiles_at_def mult.commute)
  also have "unpack_u16s (take (16 * n) data) @ unpack_u16s (take 16 (drop (16 * n) data)) =
      unpack_u16s (take (16 * n) data @ take 16 (drop (16 * n) data))"
    using ev by (simp only: unpack_u16s_append)
  also have "take (16 * n) data @ take 16 (drop (16 * n) data) = take (16 * Suc n) data"
    by (simp only: split take_add)
  finally show ?case .
qed

section \<open>The border fallback and the tile layers\<close>

lemma fallback_row_pattern:
  assumes "\<forall>x\<in>set xs. x < length row" and "length b = 4"
  shows "fallback_row row (Some b) d y xs =
     Inr (map (\<lambda>x. if row ! x \<le> 1
                    then b ! nat (((int x + 1) mod 2) + ((y + 1) mod 2) * 2)
                    else row ! x) xs)"
  using assms
proof (induction xs)
  case Nil
  then show ?case by simp
next
  case (Cons x xs)
  from Cons.prems have "b \<noteq> []" by auto
  with Cons show ?case
    by (simp add: get_border_metatile_def and_one_eq Let_def)
qed

lemma fallback_row_default:
  assumes "\<forall>x\<in>set xs. x < length row" and "border = None \<or> border = Some []"
  shows "fallback_row row border d y xs =
     Inr (map (\<lambda>x. if row ! x \<le> 1 then d else row ! x) xs)"
  using assms
  by (induction xs) (auto simp add: Let_def)

lemma fallback_rows_pattern:
  assumes "\<forall>row\<in>set rows. length row = w" and "length b = 4"
  shows "fallback_rows rows (Some b) d w y0 =
     Inr (map (\<lambda>j. map (\<lambda>x. if rows ! j ! x \<le> 1
                    then b ! nat (((int x + 1) mod 2) + ((int (y0 + j) + 1) mod 2) * 2)
                    else rows ! j ! x) [0..<w]) [0..<length rows])"
  using assms
proof (induction rows arbitrary: y0)
  case Nil
  then show ?case by simp
next
  case (Cons row rows)
  have r: "fallback_row row (Some b) d (int y0) [0..<w] =
     Inr (map (\<lambda>x. if row ! x \<le> 1
                    then b ! nat (((int x + 1) mod 2) + ((int y0 + 1) mod 2) * 2)
                    else row ! x) [0..<w])"
    using Cons.prems by (intro fallback_row_pattern) auto
  have rs: "fallback_rows rows (Some b) d w (Suc y0) =
     Inr (map (\<lambda>j. map (\<lambda>x. if rows ! j ! x \<le> 1
                    then b ! nat (((int x + 1) mod 2) + ((int (Suc y0 + j) + 1) mod 2) * 2)
                    else rows ! j ! x) [0..<w]) [0..<length rows])"
    using Cons.prems by (intro Cons.IH) auto
  show ?case
    by (simp only: fallback_rows.simps r rs length_Cons map_upt_Suc) simp
qed

lemma fallback_rows_default:
  assumes "\<forall>row\<in>set rows. length row = w" and "border = None \<or> border = Some []"
  shows "fallback_rows rows border d w y0 =
     Inr (map (\<lambda>j. map (\<lambda>x. if rows ! j ! x \<le> 1 then d else rows ! j ! x) [0..<w])
            [0..<length rows])"
  using assms
proof (induction rows arbitrary: y0)
  case Nil
  then show ?case by simp
next
  case (Cons row rows)
  have r: "fallback_row row border d (int y0) [0..<w] =
     Inr (map (\<lambda>x. if row ! x \<le> 1 then d else row ! x) [0..<w])"
    using Cons.prems by (intro fallback_row_default) auto
  have rs: "fallback_rows rows border d w (Suc y0) =
     Inr (map (\<lambda>j. map (\<lambda>x. if rows ! j ! x \<le> 1 then d else rows ! j ! x) [0..<w])
            [0..<length rows])"
    using Cons.prems by (intro Cons.IH) auto
  show ?case
    by (simp only: fallback_rows.simps r rs length_Cons map_upt_Suc) simp
qed

lemma length_concat_grid:
  "length (concat (map (\<lambda>y. map (f y) [0..<W]) [0..<H])) = H * W"
  by (induction H) simp_all

lemma nth_concat_grid:
  "x < W \<Longrightarrow> y < H \<Longrightarrow> concat (map (\<lambda>y. map (f y) [0..<W]) [0..<H]) ! (y * W + x) = f y x"
proof (induction H)
  case 0
  then show ?case by simp
next
  case (Suc H)
  show ?case
  proof (cases "y < H")
    case True
    then have "Suc y \<le> H" by simp
    then have "Suc y * W \<le> H * W" by (rule mult_le_mono1)
    with Suc.prems have "y * W + x < H * W" by simp
    with True Suc show ?thesis
      by (simp add: nth_append length_concat_grid)
  next
    case False
    with Suc.prems have "y = H" by simp
    with Suc.prems show ?thesis
      by (simp add: nth_append length_concat_grid)
  qed
qed


lemma load_map_bin_rows:
  assumes "load_map_bin data w h = Inr md"
  shows "length md = h \<and> (\<forall>row\<in>set md. length row = w)"
  using assms by (auto simp add: load_map_bin_def Let_def split: if_splits)

lemma tile_layers_nth:
  assumes "length md = h" and "\<forall>row\<in>set md. length row = w" and "x < 2 * w" and "y < 2 * h"
  shows "fst (tile_layers ts md) ! (y * (2 * w) + x) = fst (layer_cell ts md x y)
       \<and> snd (tile_layers ts md) ! (y * (2 * w) + x) = snd (layer_cell ts md x y)"
proof -
  from assms have "md \<noteq> []" by auto
  then have "md ! 0 \<in> set md" by simp
  with assms have w: "length (md ! 0) = w" by blast
  let ?cells = "concat (map (\<lambda>y. map (\<lambda>x. layer_cell ts md x y) [0..<2 * w]) [0..<2 * h])"
  have len: "length ?cells = 2 * h * (2 * w)" by (rule length_concat_grid)
  have "Suc y \<le> 2 * h" using assms by simp
  then have "Suc y * (2 * w) \<le> 2 * h * (2 * w)" by (rule mult_le_mono1)
  with assms have idx: "y * (2 * w) + x < length ?cells" by (simp add: len)
  have nth: "?cells ! (y * (2 * w) + x) = layer_cell ts md x y"
    using assms by (intro nth_concat_grid) auto
  have tl: "tile_layers ts md = (map fst ?cells, map snd ?cells)"
    using \<open>md \<noteq> []\<close> assms(1) w by (simp add: tile_layers_def Let_def mult.commute)
  show ?thesis
    using idx nth by (simp add: tl)
qed


lemma apply_border_fallback_pattern:
  assumes rect: "\<forall>row\<in>set grid. length row = length (grid ! 0)" and b4: "length border = 4"
  shows "apply_border_fallback grid (Some border) d =
        Inr (map (\<lambda>y. map (\<lambda>x. if grid ! y ! x \<le> 1
                then border ! nat (((int x + 1) mod 2) + ((int y + 1) mod 2) * 2)
                else grid ! y ! x) [0..<length (grid ! 0)]) [0..<length grid])"
proof -
  have "fallback_rows grid (Some border) d (length (grid ! 0)) 0 =
        Inr (map (\<lambda>y. map (\<lambda>x. if grid ! y ! x \<le> 1
                then border ! nat (((int x + 1) mod 2) + ((int y + 1) mod 2) * 2)
                else grid ! y ! x) [0..<length (grid ! 0)]) [0..<length grid])"
    using fallback_rows_pattern [OF rect b4, of d 0] by simp
  then show ?thesis
    by (cases "grid = []") (simp_all add: apply_border_fallback_def Let_def)
qed

lemma apply_border_fallback_default:
  assumes rect: "\<forall>row\<in>set grid. length row = length (grid ! 0)"
  shows "apply_border_fallback grid None d =
        Inr (map (\<lambda>y. map (\<lambda>x. if grid ! y ! x \<le> 1 then d else grid ! y ! x)
                [0..<length (grid ! 0)]) [0..<length grid])"
proof -
  have "fallback_rows grid None d (length (grid ! 0)) 0 =
        Inr (map (\<lambda>y. map (\<lambda>x. if grid ! y ! x \<le> 1 then d else grid ! y ! x)
                [0..<length (grid ! 0)]) [0..<length grid])"
    by (rule fallback_rows_default [OF rect]) simp
  then show ?thesis
    by (cases "grid = []") (simp_all add: apply_border_fallback_def Let_def)
qed

lemma convert_layer_cell:
  assumes m: "load_map_bin map_bin w h = Inr map_data" and x: "x < 2 * w" and y: "y < 2 * h"
  shows "map_sum id (\<lambda>out. (bottom_layer_data out ! (y * (2 * w) + x),
                            top_layer_data out ! (y * (2 * w) + x)))
          (convert_pokeemerald_map w h map_bin border_bin primary secondary)
        = Inr (layer_cell (map_tileset primary secondary) map_data x y)"
proof -
  from m have len: "length map_data = h" and rows: "\<forall>row\<in>set map_data. length row = w"
    using load_map_bin_rows [of map_bin w h map_data] by blast+
  have "fst (tile_layers (map_tileset primary secondary) map_data) ! (y * (2 * w) + x)
        = fst (layer_cell (map_tileset primary secondary) map_data x y)
      \<and> snd (tile_layers (map_tileset primary secondary) map_data) ! (y * (2 * w) + x)
        = snd (layer_cell (map_tileset primary secondary) map_data x y)"
    by (rule tile_layers_nth [OF len rows x y])
  then show ?thesis
    by (simp add: convert_pokeemerald_map_def Let_def m)
qed

lemma convert_layers_border_free:
  "map_sum id (\<lambda>out. (bottom_layer_data out, top_layer_data out))
        (convert_pokeemerald_map w h map_bin border_bin primary secondary)
     = map_sum id (\<lambda>out. (bottom_layer_data out, top_layer_data out))
        (convert_pokeemerald_map w h map_bin other_border_bin primary secondary)"
  by (simp add: convert_pokeemerald_map_def Let_def split: sum.split)

section \<open>The metadata of a map cell\<close>

lemma metatile_props_bits:
  fixes raw_value :: u16
  shows "cell_props.metatile_id (metatile_props raw_value) = uint raw_value mod 1024
    \<and> collision_bits (metatile_props raw_value) = uint raw_value div 1024 mod 4
    \<and> elevation (metatile_props raw_value) = uint raw_value div 4096
    \<and> is_solid (metatile_props raw_value) = (collision_bits (metatile_props raw_value) = 3)
    \<and> is_solid (metatile_props raw_value) = (bit raw_value 10 \<and> bit raw_value 11)"
proof -
  let ?k = "uint raw_value"
  have cb: "collision_bits (metatile_props raw_value) = ?k div 1024 mod 4"
    by (simp add: metatile_props_def Let_def uint_collision del: drop_bit_eq_div)
  have el: "elevation (metatile_props raw_value) = ?k div 4096"
    using uint_top_nibble [of raw_value] by (simp add: metatile_props_def Let_def)
  have so: "is_solid (metatile_props raw_value) = (collision_bits (metatile_props raw_value) = 3)"
    by (simp add: metatile_props_def Let_def)
  have b10: "bit raw_value 10 = odd (?k div 1024)"
    using bit_iff_odd_drop_bit [of ?k 10] by (simp add: bit_uint_iff drop_bit_eq_div)
  have b11: "bit raw_value 11 = odd (?k div 2048)"
    using bit_iff_odd_drop_bit [of ?k 11] by (simp add: bit_uint_iff drop_bit_eq_div)
  have "?k div 2048 = ?k div 1024 div 2"
    by (simp add: zdiv_zmult2_eq [symmetric])
  then have solid: "(?k div 1024 mod 4 = 3) = (odd (?k div 1024) \<and> odd (?k div 2048))"
    by (simp only: mod_4_eq_3_iff)
  have mi: "cell_props.metatile_id (metatile_props raw_value) = ?k mod 1024"
    by (simp add: metatile_props_def Let_def uint_and_3ff)
  from cb el so b10 b11 solid mi show ?thesis by simp
qed


lemma unpack_u16s_nth:
  "2 * i + 1 < length xs \<Longrightarrow> unpack_u16s xs ! i = u16_le (xs ! (2 * i)) (xs ! (2 * i + 1))"
proof (induction xs arbitrary: i rule: unpack_u16s.induct)
  case (1 lo hi rest)
  then show ?case by (cases i) simp_all
qed simp_all

lemma cell_index_bound:
  assumes "mx < w" and "my < h"
  shows "my * w + mx < w * (h::nat)"
proof -
  from assms have "Suc my \<le> h" by simp
  then have "Suc my * w \<le> h * w" by (rule mult_le_mono1)
  with assms show ?thesis by (simp add: mult.commute)
qed

lemma load_map_bin_cell:
  assumes m: "load_map_bin map_bin w h = Inr map_data" and x: "mx < w" and y: "my < h"
  shows "map_data ! my ! mx =
     u16_le (map_bin ! (2 * (my * w + mx))) (map_bin ! (2 * (my * w + mx) + 1))"
proof -
  have idx: "my * w + mx < w * h" using x y by (rule cell_index_bound)
  from m have len: "w * h * 2 \<le> length map_bin"
    by (simp add: load_map_bin_def Let_def split: if_splits)
  from m have md: "map_data = map (\<lambda>y. map (\<lambda>x. unpack_u16s (take (w * h * 2) map_bin) ! (y * w + x))
      [0..<w]) [0..<h]"
    by (simp add: load_map_bin_def Let_def split: if_splits)
  have "map_data ! my ! mx = unpack_u16s (take (w * h * 2) map_bin) ! (my * w + mx)"
    using x y by (simp add: md)
  also have "\<dots> = u16_le (take (w * h * 2) map_bin ! (2 * (my * w + mx)))
      (take (w * h * 2) map_bin ! (2 * (my * w + mx) + 1))"
    using idx len by (intro unpack_u16s_nth) simp
  also have "\<dots> = u16_le (map_bin ! (2 * (my * w + mx))) (map_bin ! (2 * (my * w + mx) + 1))"
    using idx by simp
  finally show ?thesis .
qed

lemma load_map_bin_concat:
  assumes m: "load_map_bin map_bin w h = Inr map_data" and x: "mx < w" and y: "my < h"
  shows "length (concat map_data) = h * w \<and> concat map_data ! (my * w + mx) = map_data ! my ! mx"
proof -
  from m have md: "map_data = map (\<lambda>y. map (\<lambda>x. unpack_u16s (take (w * h * 2) map_bin) ! (y * w + x))
      [0..<w]) [0..<h]"
    by (simp add: load_map_bin_def Let_def split: if_splits)
  have "concat map_data ! (my * w + mx) = unpack_u16s (take (w * h * 2) map_bin) ! (my * w + mx)"
    unfolding md using x y by (rule nth_concat_grid)
  moreover have "map_data ! my ! mx = unpack_u16s (take (w * h * 2) map_bin) ! (my * w + mx)"
    using x y by (simp add: md)
  moreover have "length (concat map_data) = h * w"
    unfolding md by (rule length_concat_grid)
  ultimately show ?thesis by simp
qed

lemma convert_metatile_objects:
  assumes m: "load_map_bin map_bin w h = Inr map_data" and x: "mx < w" and y: "my < h"
  shows "map_sum id (\<lambda>out. (length (metatile_objects out), metatile_objects out ! (my * w + mx)))
       (convert_pokeemerald_map w h map_bin border_bin primary secondary)
     = Inr (h * w, metatile_props (map_data ! my ! mx))"
proof -
  have idx: "my * w + mx < w * h" using x y by (rule cell_index_bound)
  from load_map_bin_concat [OF m x y]
  have c: "length (concat map_data) = h * w"
    "concat map_data ! (my * w + mx) = map_data ! my ! mx"
    by simp_all
  with idx show ?thesis
    by (simp add: convert_pokeemerald_map_def Let_def m mult.commute)
qed

section \<open>The metatile loaders\<close>

lemma update_fresh_key:
  "k \<notin> fst ` set al \<Longrightarrow> AList.update k v al = al @ [(k, v)]"
  by (induction al) auto

lemma metatile_at_id: "MetatileDefinition.metatile_id (metatile_at md attrs i) = int i"
  by (simp add: metatile_at_def MetatileDefinition_init_def Let_def)

lemma add_metatile_next:
  "add_metatile (map (\<lambda>i. (int i, metatile_at md attrs i)) [0..<a]) (metatile_at md attrs a)
     = map (\<lambda>i. (int i, metatile_at md attrs i)) [0..<Suc a]"
proof -
  have "int a \<notin> fst ` set (map (\<lambda>i. (int i, metatile_at md attrs i)) [0..<a])"
    by auto
  then show ?thesis
    by (simp add: add_metatile_def metatile_at_id update_fresh_key)
qed

lemma load_loop_upt:
  assumes "b * 16 \<le> length md" and "a \<le> b"
  shows "load_loop md attrs [a..<b] (map (\<lambda>i. (int i, metatile_at md attrs i)) [0..<a])
     = map (\<lambda>i. (int i, metatile_at md attrs i)) [0..<b]"
  using assms
proof (induction "b - a" arbitrary: a)
  case 0
  then show ?case by simp
next
  case (Suc n)
  then have lt: "a < b" by simp
  then have "Suc a * 16 \<le> b * 16" by simp
  with Suc.prems have fits: "\<not> a * 16 + 16 > length md" by simp
  have step: "[a..<b] = a # [Suc a..<b]"
    using lt by (rule upt_conv_Cons)
  have ih: "load_loop md attrs [Suc a..<b]
      (map (\<lambda>i. (int i, metatile_at md attrs i)) [0..<Suc a])
     = map (\<lambda>i. (int i, metatile_at md attrs i)) [0..<b]"
    using Suc lt by (intro Suc.hyps(1)) simp_all
  show ?case
    by (simp only: step load_loop.simps fits if_False add_metatile_next ih)
qed

lemma load_metatiles_from_pokeemerald_closed:
  "load_metatiles_from_pokeemerald (Some md) attributes_bin =
     map (\<lambda>i. (int i, metatile_at md
            (case attributes_bin of None \<Rightarrow> [] | Some ad \<Rightarrow> parse_attributes ad) i))
       [0..<length md div 16]"
proof -
  have "length md div 16 * 16 \<le> length md" by simp
  then show ?thesis
    using load_loop_upt [of "length md div 16" md 0]
    by (simp add: load_metatiles_from_pokeemerald_def Let_def)
qed

lemma length_parse_attributes: "length (parse_attributes ad) = length ad div 2"
  by (induction ad rule: parse_attributes.induct) simp_all

lemma parse_attributes_whole:
  "parse_attributes (take (2 * (length ad div 2)) ad) = parse_attributes ad"
  by (induction ad rule: parse_attributes.induct) simp_all

lemma metatile_at_whole:
  assumes "i < length md div 16"
  shows "metatile_at (take (16 * (length md div 16)) md) attrs i = metatile_at md attrs i"
proof -
  from assms have "16 * Suc i \<le> 16 * (length md div 16)" by simp
  then have "16 \<le> 16 * (length md div 16) - i * 16" by simp
  then have "take 16 (drop (i * 16) (take (16 * (length md div 16)) md))
      = take 16 (drop (i * 16) md)"
    by (simp add: drop_take min_def)
  then show ?thesis
    by (simp add: metatile_at_def)
qed

lemma map_of_indexed:
  "i < n \<Longrightarrow> map_of (map (\<lambda>i. (int i, f i)) [0..<n]) (int i) = Some (f i)"
  by (rule map_of_is_SomeI) (auto simp add: distinct_map o_def inj_on_def)

lemma default_attributes_fields:
  "MetatileAttributes.behavior (MetatileAttributes_init 0) = 0
   \<and> MetatileAttributes.layer_type (MetatileAttributes_init 0) = 0"
  by (simp add: MetatileAttributes_init_def)

lemma metatile_at_attr:
  "MetatileDefinition.behavior (metatile_at md attrs i) =
     MetatileAttributes.behavior (if i < length attrs then attrs ! i else MetatileAttributes_init 0)
   \<and> MetatileDefinition.layer_type (metatile_at md attrs i) =
     MetatileAttributes.layer_type (if i < length attrs then attrs ! i else MetatileAttributes_init 0)"
  by (simp add: metatile_at_def MetatileDefinition_init_def Let_def)

lemma load_whole_records:
  "load_metatiles_from_pokeemerald (Some md) (Some ad) =
     load_metatiles_from_pokeemerald (Some (take (16 * (length md div 16)) md))
       (Some (take (2 * (length ad div 2)) ad))"
proof -
  have n: "length (take (16 * (length md div 16)) md) div 16 = length md div 16"
    by (simp add: min_def)
  show ?thesis
    by (simp only: load_metatiles_from_pokeemerald_closed n option.case parse_attributes_whole)
       (simp add: metatile_at_whole)
qed

lemma le_div_4: "(l::nat) \<le> 4 * (l div 4) + 3"
proof -
  have "l mod 4 < 4" by simp
  moreover have "l = 4 * (l div 4) + l mod 4" by simp
  ultimately show ?thesis by linarith
qed

lemma replicate_4_zero: "replicate 4 (0 :: byte) = [0, 0, 0, 0]"
  by (simp add: eval_nat_numeral)

lemma concat_zero_records: "concat (replicate k [0, 0, 0, 0 :: byte]) = replicate (4 * k) 0"
proof (induction k)
  case 0
  then show ?case by simp
next
  case (Suc k)
  have "replicate (4 * Suc k) (0 :: byte) = replicate 4 0 @ replicate (4 * k) 0"
    by (simp only: replicate_add [symmetric]) simp
  with Suc show ?case
    by (simp add: replicate_4_zero)
qed

lemma range_step_4: "range_step (n * 4) 4 = map (\<lambda>j. j * 4) [0..<n]"
proof -
  have "(n * 4 + 4 - 1) div 4 = n" by arith
  then show ?thesis by (simp add: range_step_def)
qed

lemma range_step_8: "range_step (n * 8) 8 = map (\<lambda>j. j * 8) [0..<n]"
proof -
  have "(n * 8 + 8 - 1) div 8 = n" by arith
  then show ?thesis by (simp add: range_step_def)
qed

lemma nth_take_drop: "t < m \<Longrightarrow> i + t \<le> length ys \<Longrightarrow> take m (drop i ys) ! t = ys ! (i + t)"
  by simp

lemma nth_append_replicate:
  "t < length xs + k \<Longrightarrow> (xs @ replicate k x) ! t = (if t < length xs then xs ! t else x)"
  by (simp add: nth_append)

lemma length_take_drop: "i + m \<le> length ys \<Longrightarrow> length (take m (drop i ys)) = m"
  by simp

lemma take_drop_append_replicate:
  assumes a1: "i + m \<le> length xs + k1" and a2: "i + m \<le> length xs + k2"
  shows "take m (drop i (xs @ replicate k1 x)) = take m (drop i (xs @ replicate k2 x))"
proof (rule nth_equalityI)
  have l1: "length (take m (drop i (xs @ replicate k1 x))) = m"
    using a1 by (intro length_take_drop) simp
  have l2: "length (take m (drop i (xs @ replicate k2 x))) = m"
    using a2 by (intro length_take_drop) simp
  show "length (take m (drop i (xs @ replicate k1 x))) =
      length (take m (drop i (xs @ replicate k2 x)))"
    by (simp only: l1 l2)
  fix t
  assume "t < length (take m (drop i (xs @ replicate k1 x)))"
  then have t: "t < m" by (simp only: l1)
  with a1 a2 have b1: "i + t < length xs + k1" and b2: "i + t < length xs + k2" by simp_all
  have "take m (drop i (xs @ replicate k1 x)) ! t = (xs @ replicate k1 x) ! (i + t)"
    using t b1 by (intro nth_take_drop) simp_all
  also have "\<dots> = (if i + t < length xs then xs ! (i + t) else x)"
    using b1 by (rule nth_append_replicate)
  also have "\<dots> = (xs @ replicate k2 x) ! (i + t)"
    using b2 by (rule nth_append_replicate [symmetric])
  also have "\<dots> = take m (drop i (xs @ replicate k2 x)) ! t"
    using t b2 by (intro nth_take_drop [symmetric]) simp_all
  finally show "take m (drop i (xs @ replicate k1 x)) ! t
      = take m (drop i (xs @ replicate k2 x)) ! t" .
qed

lemma pad_covers: "(4::nat) * q \<le> l \<Longrightarrow> l < 4 * n \<Longrightarrow> 4 * n \<le> l + 4 * (n - q)"
  by simp

lemma attributes_from_bytes_whole:
  "length chunk = 4 \<Longrightarrow> \<exists>a. attributes_from_bytes chunk = Inr a"
  by (simp add: attributes_from_bytes_def Let_def)

lemma parse_attribute_loop_closed:
  assumes "\<forall>i\<in>set is. i + 4 \<le> length data"
  shows "parse_attribute_loop data is =
     Inr (map (\<lambda>i. projr (attributes_from_bytes (take 4 (drop i data)))) is)"
  using assms
proof (induction "is")
  case Nil
  then show ?case by simp
next
  case (Cons i rest)
  from Cons.prems have "i + 4 \<le> length data" by simp
  then have len: "length (take 4 (drop i data)) = 4" by (rule length_take_drop)
  then obtain a where a: "attributes_from_bytes (take 4 (drop i data)) = Inr a"
    using attributes_from_bytes_whole by blast
  have rest: "parse_attribute_loop data rest =
     Inr (map (\<lambda>i. projr (attributes_from_bytes (take 4 (drop i data)))) rest)"
    using Cons by simp
  have "parse_attribute_loop data (i # rest) =
     Inr (a # map (\<lambda>i. projr (attributes_from_bytes (take 4 (drop i data)))) rest)"
    by (simp only: parse_attribute_loop.simps Let_def len a rest sum.case if_True refl)
  then show ?case
    by (simp only: list.map a sum.sel)
qed

lemma pad_attributes_short:
  "length ad < 4 * (length md div 8) \<Longrightarrow>
   pad_attributes md ad = ad @ replicate (4 * (length md div 8 - length ad div 4)) 0"
  by (simp add: pad_attributes_def Let_def concat_zero_records)

lemma length_pad_attributes:
  "4 * (length md div 8) \<le> length (pad_attributes md ad)"
proof (cases "length ad < 4 * (length md div 8)")
  case True
  have "4 * (length ad div 4) \<le> length ad" by simp
  then have "4 * (length md div 8) \<le> length ad + 4 * (length md div 8 - length ad div 4)"
    using True by (rule pad_covers)
  then show ?thesis
    by (simp add: pad_attributes_short [OF True])
next
  case False
  then show ?thesis
    by (simp add: pad_attributes_def Let_def)
qed

lemma load_attributes_closed:
  "load_attributes md ad =
     Inr (map (\<lambda>j. projr (attributes_from_bytes (take 4 (drop (j * 4) (pad_attributes md ad)))))
            [0..<length md div 8])"
proof -
  let ?n = "length md div 8"
  let ?p = "pad_attributes md ad"
  have m: "min (length ?p) (?n * 4) = ?n * 4"
    using length_pad_attributes [of md ad] by simp
  have fits: "\<forall>i\<in>set (map (\<lambda>j. j * 4) [0..<?n]). i + 4 \<le> length ?p"
    using length_pad_attributes [of md ad] by auto
  have "load_attributes md ad = parse_attribute_loop ?p (map (\<lambda>j. j * 4) [0..<?n])"
    by (simp only: load_attributes_def Let_def m range_step_4)
  also have "\<dots> = Inr (map (\<lambda>i. projr (attributes_from_bytes (take 4 (drop i ?p))))
      (map (\<lambda>j. j * 4) [0..<?n]))"
    by (rule parse_attribute_loop_closed [OF fits])
  finally show ?thesis by (simp add: o_def)
qed

lemma attributes_from_zero_bytes:
  "attributes_from_bytes [0, 0, 0, 0] =
     Inr \<lparr>behavior = 0, terrain = 0, encounter_type = 0, layer_type = 0\<rparr>"
  by (simp add: attributes_from_bytes_def u16_le_def)

lemma padded_chunk:
  assumes short: "length ad < 4 * (length md div 8)" and j: "j < length md div 8"
  shows "take 4 (drop (j * 4) (pad_attributes md ad))
       = take 4 (drop (j * 4) (ad @ replicate (4 * (length md div 8) - length ad) 0))"
proof -
  let ?n = "length md div 8"
  have "4 * (length ad div 4) \<le> length ad" by simp
  then have c: "4 * ?n \<le> length ad + 4 * (?n - length ad div 4)"
    using short by (rule pad_covers)
  from j have fit: "j * 4 + 4 \<le> 4 * ?n" by simp
  from fit c have a1: "j * 4 + 4 \<le> length ad + 4 * (?n - length ad div 4)"
    by (rule order_trans)
  from fit short have a2: "j * 4 + 4 \<le> length ad + (4 * ?n - length ad)" by simp
  show ?thesis
    by (simp only: pad_attributes_short [OF short] take_drop_append_replicate [OF a1 a2])
qed

lemma zero_chunk:
  assumes "length xs \<le> i" and "i + 4 \<le> length xs + k"
  shows "take 4 (drop i (xs @ replicate k (0::byte))) = [0, 0, 0, 0]"
proof -
  from assms have "4 \<le> k - (i - length xs)" by simp
  then have "min 4 (k - (i - length xs)) = 4" by simp
  with assms show ?thesis
    by (simp add: replicate_4_zero)
qed

lemma padded_zero_tail:
  assumes short: "length ad < 4 * (length md div 8)" and j: "j < length md div 8"
    and beyond: "length ad \<le> j * 4"
  shows "take 4 (drop (j * 4) (pad_attributes md ad)) = [0, 0, 0, 0]"
proof -
  from j have "j * 4 + 4 \<le> 4 * (length md div 8)" by simp
  with short have "j * 4 + 4 \<le> length ad + (4 * (length md div 8) - length ad)" by simp
  with beyond have "take 4 (drop (j * 4)
      (ad @ replicate (4 * (length md div 8) - length ad) 0)) = [0, 0, 0, 0]"
    by (rule zero_chunk)
  then show ?thesis
    by (simp only: padded_chunk [OF short j])
qed

lemma length_unpack_u16s: "length (unpack_u16s xs) = length xs div 2"
  by (induction xs rule: unpack_u16s.induct) simp_all

lemma Metatile_from_bytes_whole:
  "length chunk = 8 \<Longrightarrow>
   Metatile_from_bytes chunk a = Inr \<lparr>tiles = map uint (unpack_u16s chunk), attributes = a\<rparr>"
  by (simp add: Metatile_from_bytes_def Let_def length_unpack_u16s)

lemma parse_metatile_loop_closed:
  assumes "\<forall>i\<in>set is. i + 8 \<le> length md"
  shows "parse_metatile_loop md attrs is =
     Inr (map (\<lambda>i. \<lparr>tiles = map uint (unpack_u16s (take 8 (drop i md))),
                     attributes = (if i div 8 < length attrs then attrs ! (i div 8)
                       else \<lparr>behavior = 0, terrain = 0, encounter_type = 0, layer_type = 0\<rparr>)\<rparr>)
            is)"
  using assms
proof (induction "is")
  case Nil
  then show ?case by simp
next
  case (Cons i rest)
  from Cons.prems have "i + 8 \<le> length md" by simp
  then have len: "length (take 8 (drop i md)) = 8" by (rule length_take_drop)
  have rest: "parse_metatile_loop md attrs rest =
     Inr (map (\<lambda>i. \<lparr>tiles = map uint (unpack_u16s (take 8 (drop i md))),
                     attributes = (if i div 8 < length attrs then attrs ! (i div 8)
                       else \<lparr>behavior = 0, terrain = 0, encounter_type = 0, layer_type = 0\<rparr>)\<rparr>)
            rest)"
    using Cons by simp
  show ?case
    by (simp only: parse_metatile_loop.simps Let_def Metatile_from_bytes_whole [OF len] rest
        sum.case list.map)
qed

lemma load_metatiles_closed:
  assumes whole: "length md mod 8 = 0"
  shows "load_metatiles md attributes_file =
     Inr (map (\<lambda>j. \<lparr>tiles = map uint (unpack_u16s (take 8 (drop (j * 8) md))),
                     attributes = projr (attributes_from_bytes (take 4 (drop (j * 4)
                        (pad_attributes md
                          (case attributes_file of Some content \<Rightarrow> content
                           | None \<Rightarrow> concat (replicate (length md div 8) [0, 0, 0, 0]))))))\<rparr>)
            [0..<length md div 8])"
proof -
  let ?n = "length md div 8"
  let ?ad = "case attributes_file of Some content \<Rightarrow> content
             | None \<Rightarrow> concat (replicate (length md div 8) [0, 0, 0, 0])"
  let ?as = "map (\<lambda>j. projr (attributes_from_bytes (take 4 (drop (j * 4) (pad_attributes md ?ad)))))
      [0..<?n]"
  from whole have l: "length md = ?n * 8" by presburger
  have rs: "range_step (length md) 8 = map (\<lambda>j. j * 8) [0..<?n]"
    using range_step_8 [of ?n] l by simp
  have fits: "\<forall>i\<in>set (map (\<lambda>j. j * 8) [0..<?n]). i + 8 \<le> length md"
  proof
    fix i
    assume "i \<in> set (map (\<lambda>j. j * 8) [0..<?n])"
    then obtain j where j: "j < ?n" and i: "i = j * 8" by auto
    from j have "j * 8 + 8 \<le> ?n * 8" by simp
    with i l show "i + 8 \<le> length md" by simp
  qed
  have "load_metatiles md attributes_file =
      parse_metatile_loop md ?as (map (\<lambda>j. j * 8) [0..<?n])"
    by (simp only: load_metatiles_def Let_def load_attributes_closed sum.case rs)
  also have "\<dots> = Inr (map (\<lambda>i. \<lparr>tiles = map uint (unpack_u16s (take 8 (drop i md))),
                     attributes = (if i div 8 < length ?as then ?as ! (i div 8)
                       else \<lparr>behavior = 0, terrain = 0, encounter_type = 0, layer_type = 0\<rparr>)\<rparr>)
            (map (\<lambda>j. j * 8) [0..<?n]))"
    by (rule parse_metatile_loop_closed [OF fits])
  also have "\<dots> = Inr (map (\<lambda>j. \<lparr>tiles = map uint (unpack_u16s (take 8 (drop (j * 8) md))),
                     attributes = projr (attributes_from_bytes (take 4 (drop (j * 4)
                        (pad_attributes md ?ad))))\<rparr>) [0..<?n])"
    by (simp add: o_def)
  finally show ?thesis .
qed

lemma load_attributes_zero_extended:
  assumes short: "length ad < 4 * (length md div 8)"
  shows "load_attributes md ad =
     load_attributes md (ad @ replicate (4 * (length md div 8) - length ad) 0)"
proof -
  let ?n = "length md div 8"
  let ?ext = "ad @ replicate (4 * ?n - length ad) 0"
  have "length ?ext = 4 * ?n" using short by simp
  then have p: "pad_attributes md ?ext = ?ext"
    by (simp add: pad_attributes_def Let_def)
  have "map (\<lambda>j. projr (attributes_from_bytes (take 4 (drop (j * 4) (pad_attributes md ad)))))
        [0..<?n]
      = map (\<lambda>j. projr (attributes_from_bytes (take 4 (drop (j * 4) ?ext)))) [0..<?n]"
    by (rule map_cong) (simp_all add: padded_chunk [OF short])
  then show ?thesis
    by (simp only: load_attributes_closed p)
qed

lemma load_metatiles_zero_extended:
  assumes short: "length ad < 4 * (length md div 8)"
  shows "load_metatiles md (Some ad) =
     load_metatiles md (Some (ad @ replicate (4 * (length md div 8) - length ad) 0))"
  by (simp only: load_metatiles_def Let_def option.case
      load_attributes_zero_extended [OF short, symmetric])

lemma map_loader_keys:
  "map fst (load_metatiles_from_pokeemerald (Some md) attributes_bin) = map int [0..<length md div 16]"
  by (simp add: load_metatiles_from_pokeemerald_closed o_def)

lemma map_loader_default_attributes:
  assumes beyond: "length ad div 2 \<le> i" and i: "i < length md div 16"
  shows "map_option (\<lambda>m. (MetatileDefinition.behavior m, MetatileDefinition.layer_type m))
        (get_metatile (load_metatiles_from_pokeemerald (Some md) (Some ad)) (int i)) = Some (0, 0)"
proof -
  have "get_metatile (load_metatiles_from_pokeemerald (Some md) (Some ad)) (int i)
      = Some (metatile_at md (parse_attributes ad) i)"
    using map_of_indexed [OF i]
    by (simp add: get_metatile_def load_metatiles_from_pokeemerald_closed)
  moreover have "\<not> i < length (parse_attributes ad)"
    using beyond by (simp add: length_parse_attributes)
  ultimately show ?thesis
    by (simp add: metatile_at_attr default_attributes_fields)
qed

lemma load_attributes_zero_tail:
  assumes short: "length ad < 4 * (length md div 8)" and i: "i < length md div 8"
    and beyond: "length ad \<le> i * 4"
  shows "map_sum id (\<lambda>as. as ! i) (load_attributes md ad) =
     Inr \<lparr>behavior = 0, terrain = 0, encounter_type = 0, layer_type = 0\<rparr>"
  using i
  by (simp add: load_attributes_closed padded_zero_tail [OF short i beyond]
      attributes_from_zero_bytes)

lemma load_metatiles_zero_tail:
  assumes short: "length ad < 4 * (length md div 8)" and whole: "length md mod 8 = 0"
    and i: "i < length md div 8" and beyond: "length ad \<le> i * 4"
  shows "map_sum id (\<lambda>ms. attributes (ms ! i)) (load_metatiles md (Some ad)) =
     Inr \<lparr>behavior = 0, terrain = 0, encounter_type = 0, layer_type = 0\<rparr>"
  using i
  by (simp add: load_metatiles_closed [OF whole] padded_zero_tail [OF short i beyond]
      attributes_from_zero_bytes)


section \<open>The chunk walk of the PNG reader\<close>

lemma slice_from: "p \<le> a \<Longrightarrow> py_slice a b xs = take (b - a) (drop (a - p) (drop p xs))"
  by (simp add: py_slice_def)

lemma slice_cong: "drop p xs = drop p ys \<Longrightarrow> p \<le> a \<Longrightarrow> py_slice a b xs = py_slice a b ys"
  by (simp only: slice_from)

lemma drop_further: "drop p xs = drop p ys \<Longrightarrow> drop (p + k) xs = drop (p + k) ys"
proof -
  assume "drop p xs = drop p ys"
  then have "drop k (drop p xs) = drop k (drop p ys)" by simp
  then show ?thesis by (simp add: add.commute)
qed

lemma walk_chunks_cong:
  "length xs = length ys \<Longrightarrow> drop pos xs = drop pos ys \<Longrightarrow>
   walk_chunks xs pos found = walk_chunks ys pos found"
proof (induction xs pos found rule: walk_chunks.induct)
  case (1 png_data pos found)
  note step = 1(1) and l = 1(2) and d = 1(3)
  have s1: "py_slice pos (pos + 4) png_data = py_slice pos (pos + 4) ys"
    using d by (rule slice_cong) simp
  have s2: "py_slice (pos + 4) (pos + 8) png_data = py_slice (pos + 4) (pos + 8) ys"
    using d by (rule slice_cong) simp
  have s3: "\<And>n. py_slice (pos + 8) (pos + 8 + n) png_data = py_slice (pos + 8) (pos + 8 + n) ys"
    using d by (rule slice_cong) simp
  show ?case
  proof (cases "pos < length png_data")
    case False
    then show ?thesis
      using l by (simp add: walk_chunks.simps [of png_data] walk_chunks.simps [of ys])
  next
    case True
    show ?thesis
    proof (cases "unpack_be32 (py_slice pos (pos + 4) png_data)")
      case (Inl e)
      then show ?thesis
        using True l s1
        by (simp add: walk_chunks.simps [of png_data pos] walk_chunks.simps [of ys pos])
    next
      case (Inr n)
      have next_drop: "drop (pos + (12 + n)) png_data = drop (pos + (12 + n)) ys"
        using d by (rule drop_further)
      have ih: "walk_chunks png_data (pos + (12 + n))
          (if py_slice (pos + 4) (pos + 8) png_data = PLTE
           then (Some (py_slice (pos + 8) (pos + 8 + n) png_data), snd found)
           else if py_slice (pos + 4) (pos + 8) png_data = IDAT
           then (fst found, snd found @ py_slice (pos + 8) (pos + 8 + n) png_data)
           else found)
        = walk_chunks ys (pos + (12 + n))
          (if py_slice (pos + 4) (pos + 8) png_data = PLTE
           then (Some (py_slice (pos + 8) (pos + 8 + n) png_data), snd found)
           else if py_slice (pos + 4) (pos + 8) png_data = IDAT
           then (fst found, snd found @ py_slice (pos + 8) (pos + 8 + n) png_data)
           else found)"
        using True Inr next_drop l by (intro step) simp_all
      have lhs: "walk_chunks png_data pos found = walk_chunks png_data (pos + (12 + n))
          (if py_slice (pos + 4) (pos + 8) png_data = PLTE
           then (Some (py_slice (pos + 8) (pos + 8 + n) png_data), snd found)
           else if py_slice (pos + 4) (pos + 8) png_data = IDAT
           then (fst found, snd found @ py_slice (pos + 8) (pos + 8 + n) png_data)
           else found)"
        using True Inr by (simp add: walk_chunks.simps [of png_data pos] Let_def)
      have rhs: "walk_chunks ys pos found = walk_chunks ys (pos + (12 + n))
          (if py_slice (pos + 4) (pos + 8) png_data = PLTE
           then (Some (py_slice (pos + 8) (pos + 8 + n) png_data), snd found)
           else if py_slice (pos + 4) (pos + 8) png_data = IDAT
           then (fst found, snd found @ py_slice (pos + 8) (pos + 8 + n) png_data)
           else found)"
        using True Inr l by (simp add: walk_chunks.simps [of ys pos] Let_def s1 [symmetric]
            s2 [symmetric] s3 [symmetric])
      show ?thesis
        by (simp only: lhs rhs ih)
    qed
  qed
qed


lemma slice_update_above: "b \<le> i \<Longrightarrow> py_slice a b (xs[i := v]) = py_slice a b xs"
proof -
  assume "b \<le> i"
  then have "take b (xs[i := v]) = take b xs" by simp
  then have "drop a (take b (xs[i := v])) = drop a (take b xs)" by simp
  then show ?thesis by (simp only: py_slice_def drop_take)
qed

lemma walk_first_chunk:
  assumes l: "py_slice 8 12 png = [0, 0, 0, 13]" and t: "py_slice 12 16 png = [0x49, 0x48, 0x44, 0x52]"
  shows "walk_chunks png 8 found = walk_chunks png 33 found"
proof -
  from l have "length (py_slice 8 12 png) = 4" by simp
  then have pos: "8 < length png" by (simp add: py_slice_def)
  have u: "unpack_be32 (py_slice 8 (8 + 4) png) = Inr 13"
    by (simp add: l unpack_be32_def)
  have ty: "py_slice (8 + 4) (8 + 8) png \<noteq> PLTE" "py_slice (8 + 4) (8 + 8) png \<noteq> IDAT"
    by (simp_all add: t PLTE_def IDAT_def)
  show ?thesis
    using pos u ty by (simp add: walk_chunks.simps [of png 8] Let_def)
qed

lemma read_png_ignores_mode:
  assumes l: "py_slice 8 12 png = [0, 0, 0, 13]" and t: "py_slice 12 16 png = [0x49, 0x48, 0x44, 0x52]"
  shows "read_png_indexed_data zlib_decompress (png[24 := depth, 25 := colour]) =
         read_png_indexed_data zlib_decompress png"
proof -
  let ?q = "png[24 := depth, 25 := colour]"
  have sl: "\<And>a b. b \<le> 24 \<Longrightarrow> py_slice a b ?q = py_slice a b png"
    by (simp add: slice_update_above)
  have sig: "take 8 ?q = take 8 png" by simp
  have len: "length ?q = length png" by simp
  have tail: "drop 33 ?q = drop 33 png" by simp
  have "walk_chunks ?q 8 (None, []) = walk_chunks ?q 33 (None, [])"
    by (rule walk_first_chunk) (simp_all add: sl l t)
  also have "\<dots> = walk_chunks png 33 (None, [])"
    using len tail by (rule walk_chunks_cong)
  also have "\<dots> = walk_chunks png 8 (None, [])"
    by (rule walk_first_chunk [OF l t, symmetric])
  finally have w: "walk_chunks ?q 8 (None, []) = walk_chunks png 8 (None, [])" .
  show ?thesis
    by (simp only: read_png_indexed_data_def sig sl w order_refl
        sl [of 20 16, simplified] sl [of 24 20, simplified])
qed

section \<open>The palette lookups\<close>

lemma lowest_key_fold:
  "map fst palettes = k # ks \<Longrightarrow> fold min ks k = Min (fst ` set palettes)"
proof -
  assume a: "map fst palettes = k # ks"
  have "fst ` set palettes = set (map fst palettes)" by simp
  also have "\<dots> = set (k # ks)" by (simp only: a)
  finally show ?thesis by (simp only: Min.set_eq_fold)
qed

lemma lowest_key_present:
  assumes "palettes \<noteq> []"
  shows "\<exists>p. map_of palettes (Min (fst ` set palettes)) = Some p"
proof -
  from assms have "fst ` set palettes \<noteq> {}" by simp
  then have "Min (fst ` set palettes) \<in> fst ` set palettes"
    by (intro Min_in) simp_all
  then have "map_of palettes (Min (fst ` set palettes)) \<noteq> None"
    by (simp only: map_of_eq_None_iff not_not)
  then show ?thesis by blast
qed

lemma default_palette_nonempty:
  assumes ne: "palettes \<noteq> []"
  shows "default_palette palettes =
     Inr (case map_of palettes 0 of
            Some p \<Rightarrow> p
          | None \<Rightarrow> the (map_of palettes (Min (fst ` set palettes))))"
proof -
  from ne obtain k ks where ks: "map fst palettes = k # ks"
    by (cases palettes) auto
  from lowest_key_present [OF ne] obtain p
    where p: "map_of palettes (Min (fst ` set palettes)) = Some p" by blast
  show ?thesis
    by (simp add: default_palette_def ks lowest_key_fold [OF ks] p split: option.split)
qed

lemma default_palette_fallback:
  assumes ne: "palettes \<noteq> []" and no0: "map_of palettes 0 = None"
  shows "map_option Inr (map_of palettes (Min (fst ` set palettes)))
       = Some (default_palette palettes)"
proof -
  from lowest_key_present [OF ne] obtain p
    where p: "map_of palettes (Min (fst ` set palettes)) = Some p" by blast
  show ?thesis
    by (simp add: default_palette_nonempty [OF ne] no0 p)
qed

lemma default_palette_zero:
  assumes "map_of palettes 0 = Some p0"
  shows "default_palette palettes = Inr p0"
proof -
  from assms have "palettes \<noteq> []" by auto
  then show ?thesis
    by (simp add: default_palette_nonempty assms)
qed

lemma zero_is_lowest:
  assumes z: "map_of palettes 0 = Some p0" and nn: "list_all (\<lambda>k. 0 \<le> k) (map fst palettes)"
  shows "Min (fst ` set palettes) = 0"
proof (rule Min_eqI)
  show "finite (fst ` set palettes)" by simp
  show "\<And>y. y \<in> fst ` set palettes \<Longrightarrow> 0 \<le> y"
    using nn by (auto simp add: list_all_iff)
  from z have "(0, p0) \<in> set palettes" by (rule map_of_SomeD)
  then show "0 \<in> fst ` set palettes" by force
qed

lemma render_messages:
  assumes "map_sum id fst
      (render_tileset_with_palettes zlib_decompress tiles_png palettes metatiles_bin tile_offset)
      = Inr printed"
  shows "printed = [Loading_indexed_PNG, Loading_palettes_from, Loaded_palettes]
      @ (if tile_offset > 0 then [Using_tile_offset] else []) @ [Rendered_tileset]"
  using assms
  by (auto simp add: render_tileset_with_palettes_def Let_def split: sum.splits prod.splits)

section \<open>Claims\<close>

text \<open>
  C1. For every 16-bit tile value \<open>v\<close>, decoding gives tile index \<open>v & 0x3FF\<close> (the
  gid of \<open>parse_tile\<close> is that index plus one), h_flip \<open>bool(v & 0x400)\<close>, v_flip
  \<open>bool(v & 0x800)\<close> and palette key \<open>(v >> 12) & 0xF\<close>; these are the low ten bits,
  bit 10, bit 11 and the top four bits of \<open>v\<close>, and packing the four fields again gives
  \<open>v\<close> back.
\<close>

theorem tile_bitfield_round_trip:
  fixes v :: u16
  shows "gid (parse_tile v) - 1 = uint (v AND 0x3FF)
    \<and> tile_id_of v = uint (v AND 0x3FF)
    \<and> tile_id_of v = uint v mod 1024
    \<and> h_flip (parse_tile v) = (v AND 0x400 \<noteq> 0)
    \<and> h_flip (parse_tile v) = bit v 10
    \<and> v_flip (parse_tile v) = (v AND 0x800 \<noteq> 0)
    \<and> v_flip (parse_tile v) = bit v 11
    \<and> palette_of v = uint (drop_bit 12 v AND 0xF)
    \<and> palette_of v = uint v div 4096
    \<and> pack_tile_bitfield (tile_id_of v) (h_flip (parse_tile v)) (v_flip (parse_tile v))
          (palette_of v) = uint v"
proof -
  have "gid (parse_tile v) - 1 = uint (v AND 0x3FF)"
    by (simp add: parse_tile_def Let_def)
  moreover have "tile_id_of v = uint v mod 1024"
    by (simp only: tile_id_of_def uint_and_3ff)
  moreover have "h_flip (parse_tile v) = bit v 10" "v_flip (parse_tile v) = bit v 11"
    by (simp_all add: parse_tile_def Let_def and_400 and_800)
  moreover have "palette_of v = uint v div 4096"
    by (simp only: palette_of_def uint_top_nibble)
  ultimately show ?thesis
    using pack_decoded_fields [of v]
    by (simp add: tile_id_of_def palette_of_def parse_tile_def Let_def)
qed

text \<open>
  C4. For every coordinate pair and every 4-entry border pattern the lookup returns
  \<open>border[((x+1) mod 2) + ((y+1) mod 2) * 2]\<close>; for \<open>[A, B, C, D]\<close>, position (0,0)
  gives D, (1,0) gives C, (0,1) gives B and (1,1) gives A.
\<close>

theorem get_border_metatile_checkerboard:
  "(length border = 4 \<longrightarrow>
      get_border_metatile border x y =
        Inr (border ! nat (((x + 1) mod 2) + ((y + 1) mod 2) * 2)))
   \<and> get_border_metatile [A, B, C, D] 0 0 = Inr D
   \<and> get_border_metatile [A, B, C, D] 1 0 = Inr C
   \<and> get_border_metatile [A, B, C, D] 0 1 = Inr B
   \<and> get_border_metatile [A, B, C, D] 1 1 = Inr A"
  by (simp add: get_border_metatile_def and_one_eq)

theorem get_border_metatile_checkerboard_witness:
  "length [2, 3, 4, 5 :: int] = 4 \<and> get_border_metatile [2, 3, 4, 5] 1 0 = Inr 4
   \<and> get_border_metatile [2, 3, 4, 5] (-3) 6 = Inr 4"
  using get_border_metatile_checkerboard [of "[2, 3, 4, 5]" 1 0]
    get_border_metatile_checkerboard [of "[2, 3, 4, 5]" "-3" 6]
  by simp

text \<open>
  C10. For every map cell the metadata that \<open>convert_pokeemerald_map\<close> emits, one entry
  per cell in row order, reads the cell's raw 16-bit value, the little-endian pair of bytes
  at the cell's place in the map file, as: metatile_id = bits 0-9, collision_bits = bits
  10-11, elevation = bits 12-15, and is_solid holds exactly when collision_bits is 3, that
  is when both collision bits are set.
\<close>

theorem metatile_objects_fields:
  fixes raw_value :: u16
  shows "(load_map_bin map_bin w h = Inr map_data \<and> mx < w \<and> my < h \<longrightarrow>
      map_sum id (\<lambda>out. (length (metatile_objects out), metatile_objects out ! (my * w + mx)))
        (convert_pokeemerald_map w h map_bin border_bin primary secondary)
      = Inr (h * w, metatile_props (map_data ! my ! mx))
      \<and> map_data ! my ! mx =
          u16_le (map_bin ! (2 * (my * w + mx))) (map_bin ! (2 * (my * w + mx) + 1)))
    \<and> cell_props.metatile_id (metatile_props raw_value) = uint raw_value mod 1024
    \<and> collision_bits (metatile_props raw_value) = uint raw_value div 1024 mod 4
    \<and> elevation (metatile_props raw_value) = uint raw_value div 4096
    \<and> is_solid (metatile_props raw_value) = (collision_bits (metatile_props raw_value) = 3)
    \<and> is_solid (metatile_props raw_value) = (bit raw_value 10 \<and> bit raw_value 11)"
proof (rule conjI)
  show "load_map_bin map_bin w h = Inr map_data \<and> mx < w \<and> my < h \<longrightarrow>
      map_sum id (\<lambda>out. (length (metatile_objects out), metatile_objects out ! (my * w + mx)))
        (convert_pokeemerald_map w h map_bin border_bin primary secondary)
      = Inr (h * w, metatile_props (map_data ! my ! mx))
      \<and> map_data ! my ! mx =
          u16_le (map_bin ! (2 * (my * w + mx))) (map_bin ! (2 * (my * w + mx) + 1))"
  proof (intro impI conjI)
    assume "load_map_bin map_bin w h = Inr map_data \<and> mx < w \<and> my < h"
    then have m: "load_map_bin map_bin w h = Inr map_data" and x: "mx < w" and y: "my < h"
      by blast+
    show "map_sum id
          (\<lambda>out. (length (metatile_objects out), metatile_objects out ! (my * w + mx)))
          (convert_pokeemerald_map w h map_bin border_bin primary secondary)
        = Inr (h * w, metatile_props (map_data ! my ! mx))"
      by (rule convert_metatile_objects [OF m x y])
    show "map_data ! my ! mx =
        u16_le (map_bin ! (2 * (my * w + mx))) (map_bin ! (2 * (my * w + mx) + 1))"
      by (rule load_map_bin_cell [OF m x y])
  qed
  show "cell_props.metatile_id (metatile_props raw_value) = uint raw_value mod 1024
    \<and> collision_bits (metatile_props raw_value) = uint raw_value div 1024 mod 4
    \<and> elevation (metatile_props raw_value) = uint raw_value div 4096
    \<and> is_solid (metatile_props raw_value) = (collision_bits (metatile_props raw_value) = 3)
    \<and> is_solid (metatile_props raw_value) = (bit raw_value 10 \<and> bit raw_value 11)"
    by (rule metatile_props_bits)
qed

theorem metatile_objects_fields_witness:
  "map_sum id (\<lambda>out. (length (metatile_objects out), metatile_objects out ! (0 * 2 + 0)))
     (convert_pokeemerald_map 2 1 [0x05, 0x3C, 0x01, 0x04] None (None, None) None)
   = Inr (1 * 2, \<lparr>cell_props.metatile_id = 5, collision_bits = 3, is_solid = True,
                   elevation = 3\<rparr>)"
proof -
  have m: "load_map_bin [0x05, 0x3C, 0x01, 0x04] 2 1 = Inr [[0x3C05, 0x0401]]
      \<and> (0::nat) < 2 \<and> (0::nat) < 1"
    by code_simp
  have p: "metatile_props ([[0x3C05, 0x0401]] ! 0 ! 0) =
      \<lparr>cell_props.metatile_id = 5, collision_bits = 3, is_solid = True, elevation = 3\<rparr>"
    by code_simp
  show ?thesis
    using metatile_objects_fields [where map_bin = "[0x05, 0x3C, 0x01, 0x04]" and w = 2
        and h = 1 and map_data = "[[0x3C05, 0x0401]]" and mx = 0 and my = 0
        and border_bin = None and primary = "(None, None)" and secondary = None,
        THEN conjunct1, THEN mp, OF m, THEN conjunct1]
    by (simp only: p)
qed



text \<open>
  C3. For every absolute tile index \<open>t\<close> the palette key chosen is the palette field of
  the first raw tile, in record order and within a record in quadrant order, whose tile
  index equals \<open>t\<close>; when no raw tile of the table matches, the key is 0.
  The records in order, each in quadrant order, are the 16-bit values of the file up to
  its last whole record.
\<close>

theorem get_tile_palette_index_first_match:
  "get_tile_palette_index data t =
     (case find (\<lambda>raw. tile_id_of raw = t) (concat (metatile_records data)) of
        Some raw \<Rightarrow> palette_of raw
      | None \<Rightarrow> 0)
   \<and> concat (metatile_records data) = unpack_u16s (take (16 * (length data div 16)) data)"
  by (simp add: get_tile_palette_index_def metatile_records_def scan_metatiles_find
      concat_raw_tiles)

text \<open>
  C5. The claim has the assembler replace every cell of id 0 or 1 by the border pattern's
  entry. At the claim's own scenario the code does not: for the grid of ids 0, 1, 5, 0
  with border pattern 2, 3, 4, 5 and six records, record \<open>i\<close> holding tile \<open>i + 10\<close>
  (gid \<open>i + 11\<close>) in every quadrant of both layers, the two assembled layers show records
  0, 1, 5, 0, and the loaded pattern only appears as the map property. The fallback of
  border_tile_fix.py, which the converter imports, turns the same grid into 5, 4, 5, 2,
  whose layers show records 5, 4, 5, 2.
\<close>

theorem assembler_skips_border_fallback:
  "map_sum id (\<lambda>out. (bottom_layer_data out, top_layer_data out, border_pattern_metatiles out))
     (convert_pokeemerald_map 2 2 [0, 0, 1, 0, 5, 0, 0, 0] (Some [2, 0, 3, 0, 4, 0, 5, 0])
        (Some (concat (map (\<lambda>i. concat (replicate 8 [of_nat i + 10, 0])) [0..<6])), None) None)
     = Inr ([11, 11, 12, 12, 11, 11, 12, 12, 16, 16, 11, 11, 16, 16, 11, 11],
            [11, 11, 12, 12, 11, 11, 12, 12, 16, 16, 11, 11, 16, 16, 11, 11],
            Some [2, 3, 4, 5])
   \<and> apply_border_fallback [[0, 1], [5, 0]] (Some [2, 3, 4, 5]) 2 = Inr [[5, 4], [5, 2]]
   \<and> map_sum id (\<lambda>out. (bottom_layer_data out, top_layer_data out))
     (convert_pokeemerald_map 2 2 [5, 0, 4, 0, 5, 0, 2, 0] (Some [2, 0, 3, 0, 4, 0, 5, 0])
        (Some (concat (map (\<lambda>i. concat (replicate 8 [of_nat i + 10, 0])) [0..<6])), None) None)
     = Inr ([16, 16, 15, 15, 16, 16, 15, 15, 16, 16, 13, 13, 16, 16, 13, 13],
            [16, 16, 15, 15, 16, 16, 15, 15, 16, 16, 13, 13, 16, 16, 13, 13])"
proof (intro conjI)
  show "map_sum id (\<lambda>out. (bottom_layer_data out, top_layer_data out, border_pattern_metatiles out))
     (convert_pokeemerald_map 2 2 [0, 0, 1, 0, 5, 0, 0, 0] (Some [2, 0, 3, 0, 4, 0, 5, 0])
        (Some (concat (map (\<lambda>i. concat (replicate 8 [of_nat i + 10, 0])) [0..<6])), None) None)
     = Inr ([11, 11, 12, 12, 11, 11, 12, 12, 16, 16, 11, 11, 16, 16, 11, 11],
            [11, 11, 12, 12, 11, 11, 12, 12, 16, 16, 11, 11, 16, 16, 11, 11],
            Some [2, 3, 4, 5])"
    by code_simp
  have u2: "[0..<2] = [0, 1]"
    by (simp add: upt_rec)
  show "apply_border_fallback [[0, 1], [5, 0]] (Some [2, 3, 4, 5]) 2 = Inr [[5, 4], [5, 2]]"
    by (simp add: apply_border_fallback_def get_border_metatile_def u2 and_one_eq)
  show "map_sum id (\<lambda>out. (bottom_layer_data out, top_layer_data out))
     (convert_pokeemerald_map 2 2 [5, 0, 4, 0, 5, 0, 2, 0] (Some [2, 0, 3, 0, 4, 0, 5, 0])
        (Some (concat (map (\<lambda>i. concat (replicate 8 [of_nat i + 10, 0])) [0..<6])), None) None)
     = Inr ([16, 16, 15, 15, 16, 16, 15, 15, 16, 16, 13, 13, 16, 16, 13, 13],
            [16, 16, 15, 15, 16, 16, 15, 15, 16, 16, 13, 13, 16, 16, 13, 13])"
    by code_simp
qed

text \<open>
  C6. For a metatile table implying N records and an attribute buffer shorter than N
  records, the attribute decoding gives exactly N records, and every record that lies
  beyond the supplied bytes is the all-zero default, without an error. In
  \<open>load_metatiles_from_pokeemerald\<close> (16 bytes per metatile, 2 per attribute record) the
  tileset has the ids 0 to N - 1 and every id from \<open>len(attributes) // 2\<close> on has behavior 0
  and layer_type 0. In \<open>load_metatiles\<close> of the tileset converter (8 bytes per metatile, 4
  per attribute record) the attribute list has N entries, those that start at or after the
  end of the buffer are all zero, and for a metatile buffer of whole records the same
  holds of the attributes of the N metatiles returned.
\<close>

theorem truncated_attributes_zero_default:
  "(length ad < 2 * (length md div 16) \<longrightarrow>
      map fst (load_metatiles_from_pokeemerald (Some md) (Some ad))
        = map int [0..<length md div 16])
   \<and> (length ad < 2 * (length md div 16) \<and> length ad div 2 \<le> i \<and> i < length md div 16 \<longrightarrow>
      map_option (\<lambda>m. (MetatileDefinition.behavior m, MetatileDefinition.layer_type m))
        (get_metatile (load_metatiles_from_pokeemerald (Some md) (Some ad)) (int i))
        = Some (0, 0))
   \<and> (length ad < 4 * (length md div 8) \<longrightarrow>
      map_sum id length (load_attributes md ad) = Inr (length md div 8))
   \<and> (length ad < 4 * (length md div 8) \<and> i < length md div 8 \<and> length ad \<le> i * 4 \<longrightarrow>
      map_sum id (\<lambda>as. as ! i) (load_attributes md ad)
        = Inr \<lparr>behavior = 0, terrain = 0, encounter_type = 0, layer_type = 0\<rparr>)
   \<and> (length ad < 4 * (length md div 8) \<and> length md mod 8 = 0 \<longrightarrow>
      map_sum id length (load_metatiles md (Some ad)) = Inr (length md div 8))
   \<and> (length ad < 4 * (length md div 8) \<and> length md mod 8 = 0 \<and> i < length md div 8
        \<and> length ad \<le> i * 4 \<longrightarrow>
      map_sum id (\<lambda>ms. attributes (ms ! i)) (load_metatiles md (Some ad))
        = Inr \<lparr>behavior = 0, terrain = 0, encounter_type = 0, layer_type = 0\<rparr>)"
proof (intro conjI impI)
  show "map fst (load_metatiles_from_pokeemerald (Some md) (Some ad))
        = map int [0..<length md div 16]"
    by (rule map_loader_keys)
next
  assume "length ad < 2 * (length md div 16) \<and> length ad div 2 \<le> i \<and> i < length md div 16"
  then have b: "length ad div 2 \<le> i" and i: "i < length md div 16" by blast+
  show "map_option (\<lambda>m. (MetatileDefinition.behavior m, MetatileDefinition.layer_type m))
        (get_metatile (load_metatiles_from_pokeemerald (Some md) (Some ad)) (int i))
        = Some (0, 0)"
    by (rule map_loader_default_attributes [OF b i])
next
  show "map_sum id length (load_attributes md ad) = Inr (length md div 8)"
    by (simp add: load_attributes_closed)
next
  assume "length ad < 4 * (length md div 8) \<and> i < length md div 8 \<and> length ad \<le> i * 4"
  then have s: "length ad < 4 * (length md div 8)" and i: "i < length md div 8"
    and b: "length ad \<le> i * 4" by blast+
  show "map_sum id (\<lambda>as. as ! i) (load_attributes md ad)
        = Inr \<lparr>behavior = 0, terrain = 0, encounter_type = 0, layer_type = 0\<rparr>"
    by (rule load_attributes_zero_tail [OF s i b])
next
  assume "length ad < 4 * (length md div 8) \<and> length md mod 8 = 0"
  then have w: "length md mod 8 = 0" by blast
  show "map_sum id length (load_metatiles md (Some ad)) = Inr (length md div 8)"
    by (simp add: load_metatiles_closed [OF w])
next
  assume "length ad < 4 * (length md div 8) \<and> length md mod 8 = 0 \<and> i < length md div 8
        \<and> length ad \<le> i * 4"
  then have s: "length ad < 4 * (length md div 8)" and w: "length md mod 8 = 0"
    and i: "i < length md div 8" and b: "length ad \<le> i * 4" by blast+
  show "map_sum id (\<lambda>ms. attributes (ms ! i)) (load_metatiles md (Some ad))
        = Inr \<lparr>behavior = 0, terrain = 0, encounter_type = 0, layer_type = 0\<rparr>"
    by (rule load_metatiles_zero_tail [OF s w i b])
qed


theorem truncated_attributes_zero_default_witness:
  "map fst (load_metatiles_from_pokeemerald (Some (replicate 32 1)) (Some [0x33, 0x21, 5]))
     = [0, 1]
   \<and> map_option (\<lambda>m. (MetatileDefinition.behavior m, MetatileDefinition.layer_type m))
        (get_metatile (load_metatiles_from_pokeemerald (Some (replicate 32 1))
           (Some [0x33, 0x21, 5])) 1) = Some (0, 0)
   \<and> map_sum id length (load_attributes (replicate 32 1) [0x33, 0x21, 5]) = Inr 4
   \<and> map_sum id (\<lambda>as. as ! 1) (load_attributes (replicate 32 1) [0x33, 0x21, 5])
        = Inr \<lparr>behavior = 0, terrain = 0, encounter_type = 0, layer_type = 0\<rparr>
   \<and> map_sum id length (load_metatiles (replicate 32 1) (Some [0x33, 0x21, 5])) = Inr 4
   \<and> map_sum id (\<lambda>ms. attributes (ms ! 1)) (load_metatiles (replicate 32 1) (Some [0x33, 0x21, 5]))
        = Inr \<lparr>behavior = 0, terrain = 0, encounter_type = 0, layer_type = 0\<rparr>"
proof -
  note t = truncated_attributes_zero_default [where md = "replicate 32 1"
      and ad = "[0x33, 0x21, 5]" and i = 1]
  have h1: "length [0x33, 0x21, 5 :: byte] < 2 * (length (replicate 32 (1::byte)) div 16)"
    by simp
  have h2: "length [0x33, 0x21, 5 :: byte] < 2 * (length (replicate 32 (1::byte)) div 16)
      \<and> length [0x33, 0x21, 5 :: byte] div 2 \<le> 1
      \<and> 1 < length (replicate 32 (1::byte)) div 16"
    by simp
  have h3: "length [0x33, 0x21, 5 :: byte] < 4 * (length (replicate 32 (1::byte)) div 8)"
    by simp
  have h4: "length [0x33, 0x21, 5 :: byte] < 4 * (length (replicate 32 (1::byte)) div 8)
      \<and> 1 < length (replicate 32 (1::byte)) div 8 \<and> length [0x33, 0x21, 5 :: byte] \<le> 1 * 4"
    by simp
  have h5: "length [0x33, 0x21, 5 :: byte] < 4 * (length (replicate 32 (1::byte)) div 8)
      \<and> length (replicate 32 (1::byte)) mod 8 = 0"
    by simp
  have h6: "length [0x33, 0x21, 5 :: byte] < 4 * (length (replicate 32 (1::byte)) div 8)
      \<and> length (replicate 32 (1::byte)) mod 8 = 0
      \<and> 1 < length (replicate 32 (1::byte)) div 8 \<and> length [0x33, 0x21, 5 :: byte] \<le> 1 * 4"
    by simp
  note c1 = t [THEN conjunct1, THEN mp, OF h1]
  note c2 = t [THEN conjunct2, THEN conjunct1, THEN mp, OF h2]
  note c3 = t [THEN conjunct2, THEN conjunct2, THEN conjunct1, THEN mp, OF h3]
  note c4 = t [THEN conjunct2, THEN conjunct2, THEN conjunct2, THEN conjunct1, THEN mp, OF h4]
  note c5 = t [THEN conjunct2, THEN conjunct2, THEN conjunct2, THEN conjunct2, THEN conjunct1,
      THEN mp, OF h5]
  note c6 = t [THEN conjunct2, THEN conjunct2, THEN conjunct2, THEN conjunct2, THEN conjunct2,
      THEN mp, OF h6]
  have u2: "[0..<2] = [0, 1]"
    by (simp add: upt_rec)
  have r1: "map int [0..<length (replicate 32 (1::byte)) div 16] = [0, 1]"
    by (simp add: u2)
  have r2: "int 1 = 1"
    by simp
  have r3: "length (replicate 32 (1::byte)) div 8 = 4"
    by simp
  have d1: "map fst (load_metatiles_from_pokeemerald (Some (replicate 32 1))
      (Some [0x33, 0x21, 5])) = [0, 1]"
    using c1 by (simp only: r1)
  have d2: "map_option (\<lambda>m. (MetatileDefinition.behavior m, MetatileDefinition.layer_type m))
        (get_metatile (load_metatiles_from_pokeemerald (Some (replicate 32 1))
           (Some [0x33, 0x21, 5])) 1) = Some (0, 0)"
    using c2 by (simp only: r2)
  have d3: "map_sum id length (load_attributes (replicate 32 1) [0x33, 0x21, 5]) = Inr 4"
    using c3 by (simp only: r3)
  have d5: "map_sum id length (load_metatiles (replicate 32 1) (Some [0x33, 0x21, 5]))
      = Inr 4"
    using c5 by (simp only: r3)
  from d1 d2 d3 c4 d5 c6 show ?thesis by (intro conjI)
qed


text \<open>
  C9, as the code has it. \<open>load_metatiles_from_pokeemerald\<close> decodes whole records
  only and cannot fail: its result is that of the two buffers cut to their last whole
  record (16 bytes per metatile, 2 per attribute record), with the ids 0 to
  \<open>len(metatiles) // 16 - 1\<close>. \<open>load_metatiles\<close> of the tileset converter returns
  \<open>len(metatiles) // 8\<close> metatiles for a metatile buffer of whole records, and a
  too-short attribute buffer is decoded as if it were filled up with zero bytes to 4 bytes
  per metatile: the bytes of a trailing partial attribute record are kept, not discarded.
\<close>

theorem whole_records_or_zero_padding:
  "load_metatiles_from_pokeemerald (Some md) (Some ad) =
     load_metatiles_from_pokeemerald (Some (take (16 * (length md div 16)) md))
       (Some (take (2 * (length ad div 2)) ad))
   \<and> map fst (load_metatiles_from_pokeemerald (Some md) attributes_bin)
       = map int [0..<length md div 16]
   \<and> (length md mod 8 = 0 \<longrightarrow>
       map_sum id length (load_metatiles md attributes_file) = Inr (length md div 8))
   \<and> (length ad < 4 * (length md div 8) \<longrightarrow>
       load_metatiles md (Some ad) =
         load_metatiles md (Some (ad @ replicate (4 * (length md div 8) - length ad) 0)))"
proof (intro conjI impI)
  show "load_metatiles_from_pokeemerald (Some md) (Some ad) =
     load_metatiles_from_pokeemerald (Some (take (16 * (length md div 16)) md))
       (Some (take (2 * (length ad div 2)) ad))"
    by (rule load_whole_records)
  show "map fst (load_metatiles_from_pokeemerald (Some md) attributes_bin)
       = map int [0..<length md div 16]"
    by (rule map_loader_keys)
next
  assume w: "length md mod 8 = 0"
  show "map_sum id length (load_metatiles md attributes_file) = Inr (length md div 8)"
    by (simp add: load_metatiles_closed [OF w])
next
  assume s: "length ad < 4 * (length md div 8)"
  show "load_metatiles md (Some ad) =
         load_metatiles md (Some (ad @ replicate (4 * (length md div 8) - length ad) 0))"
    by (rule load_metatiles_zero_extended [OF s])
qed

theorem whole_records_or_zero_padding_witness:
  "map_sum id length (load_metatiles (replicate 16 0) (Some [0x33])) = Inr 2
   \<and> load_metatiles (replicate 16 0) (Some [0x33]) =
       load_metatiles (replicate 16 0) (Some [0x33, 0, 0, 0, 0, 0, 0, 0])"
proof -
  note t = whole_records_or_zero_padding [where md = "replicate 16 0" and ad = "[0x33]"
      and attributes_file = "Some [0x33]"]
  have h1: "length (replicate 16 (0::byte)) mod 8 = 0"
    by simp
  have h2: "length [0x33 :: byte] < 4 * (length (replicate 16 (0::byte)) div 8)"
    by simp
  note c1 = t [THEN conjunct2, THEN conjunct2, THEN conjunct1, THEN mp, OF h1]
  note c2 = t [THEN conjunct2, THEN conjunct2, THEN conjunct2, THEN mp, OF h2]
  have n: "4 * (length (replicate 16 (0::byte)) div 8) - length [0x33 :: byte] = 7"
    by simp
  have r7: "replicate 7 (0::byte) = [0, 0, 0, 0, 0, 0, 0]"
    by (simp add: eval_nat_numeral)
  have r: "length (replicate 16 (0::byte)) div 8 = 2"
    by simp
  have d1: "map_sum id length (load_metatiles (replicate 16 0) (Some [0x33])) = Inr 2"
    using c1 by (simp only: r)
  have d2: "load_metatiles (replicate 16 0) (Some [0x33]) =
       load_metatiles (replicate 16 0) (Some [0x33, 0, 0, 0, 0, 0, 0, 0])"
    using c2 by (simp only: n r7 append.simps)
  from d1 d2 show ?thesis by (intro conjI)
qed


text \<open>
  C9 as stated fails in \<open>load_metatiles\<close>: with two metatiles and a single attribute
  byte 0x33, that byte is decoded as the behavior of the first metatile; and a metatile
  buffer of 9 bytes is rejected with the error of \<open>struct.unpack\<close>.
\<close>

theorem partial_attribute_record_counterexample:
  "load_metatiles (replicate 16 0) (Some [0x33]) =
     Inr [\<lparr>tiles = [0, 0, 0, 0],
           attributes = \<lparr>behavior = 0x33, terrain = 0, encounter_type = 0, layer_type = 0\<rparr>\<rparr>,
          \<lparr>tiles = [0, 0, 0, 0],
           attributes = \<lparr>behavior = 0, terrain = 0, encounter_type = 0, layer_type = 0\<rparr>\<rparr>]
   \<and> load_metatiles (replicate 9 0) (Some []) = Inl StructError"
  by code_simp

text \<open>
  C8, as the code has it. \<open>read_png_indexed_data\<close> never reads the bit depth and the
  colour type that the header declares: for a file whose first chunk is 13 bytes long with
  the tag IHDR, any change of those two bytes, at offsets 24 and 25, leaves the result
  unchanged, be it an error or the width, height, pixels and palette. A file whose first
  8 bytes are not the PNG signature is rejected with ValueError.
\<close>

theorem read_png_ignores_color_mode:
  "(py_slice 8 12 png = [0, 0, 0, 13] \<and> py_slice 12 16 png = [0x49, 0x48, 0x44, 0x52] \<longrightarrow>
      read_png_indexed_data zlib_decompress (png[24 := depth, 25 := colour]) =
      read_png_indexed_data zlib_decompress png)
   \<and> (take 8 png \<noteq> PNG_signature \<longrightarrow>
      read_png_indexed_data zlib_decompress png = Inl ValueError)"
proof (intro conjI impI)
  assume "py_slice 8 12 png = [0, 0, 0, 13] \<and> py_slice 12 16 png = [0x49, 0x48, 0x44, 0x52]"
  then have l: "py_slice 8 12 png = [0, 0, 0, 13]"
    and t: "py_slice 12 16 png = [0x49, 0x48, 0x44, 0x52]"
    by blast+
  show "read_png_indexed_data zlib_decompress (png[24 := depth, 25 := colour]) =
      read_png_indexed_data zlib_decompress png"
    by (rule read_png_ignores_mode [OF l t])
next
  assume "take 8 png \<noteq> PNG_signature"
  then show "read_png_indexed_data zlib_decompress png = Inl ValueError"
    by (simp add: read_png_indexed_data_def)
qed

theorem read_png_ignores_color_mode_witness:
  "read_png_indexed_data
     (\<lambda>s. if s = [120, 218, 99, 16, 50, 9, 251, 63, 107, 207, 189, 255, 0, 16, 91, 4, 207]
        then Inr [0, 18, 52, 86, 255, 154, 188, 222, 255] else Inl ZlibError)
     ([137 :: byte, 80, 78, 71, 13, 10, 26, 10, 0, 0, 0, 13, 73, 72, 68, 82, 0, 0, 0, 2, 0, 0, 0, 1,
      8, 6, 0, 0, 0, 244, 34, 127, 138, 0, 0, 0, 17, 73, 68, 65, 84, 120, 218, 99, 16, 50, 9,
      251, 63, 107, 207, 189, 255, 0, 16, 91, 4, 207, 232, 241, 203, 185, 0, 0, 0, 0, 73, 69,
      78, 68, 174, 66, 96, 130][24 := 4, 25 := 3])
   = Inr (2, 1, [[1, 2]], None)
   \<and> read_png_indexed_data
     (\<lambda>s. if s = [120, 218, 99, 16, 50, 9, 251, 63, 107, 207, 189, 255, 0, 16, 91, 4, 207]
        then Inr [0, 18, 52, 86, 255, 154, 188, 222, 255] else Inl ZlibError)
     (0 # [137 :: byte, 80, 78, 71, 13, 10, 26, 10, 0, 0, 0, 13, 73, 72, 68, 82, 0, 0, 0, 2, 0, 0, 0, 1,
      8, 6, 0, 0, 0, 244, 34, 127, 138, 0, 0, 0, 17, 73, 68, 65, 84, 120, 218, 99, 16, 50, 9,
      251, 63, 107, 207, 189, 255, 0, 16, 91, 4, 207, 232, 241, 203, 185, 0, 0, 0, 0, 73, 69,
      78, 68, 174, 66, 96, 130])
   = Inl ValueError"
proof -
  note t = read_png_ignores_color_mode [where png = "[137 :: byte, 80, 78, 71, 13, 10, 26, 10, 0, 0, 0, 13, 73, 72, 68, 82, 0, 0, 0, 2, 0, 0, 0, 1,
      8, 6, 0, 0, 0, 244, 34, 127, 138, 0, 0, 0, 17, 73, 68, 65, 84, 120, 218, 99, 16, 50, 9,
      251, 63, 107, 207, 189, 255, 0, 16, 91, 4, 207, 232, 241, 203, 185, 0, 0, 0, 0, 73, 69,
      78, 68, 174, 66, 96, 130]"
      and zlib_decompress = "(\<lambda>s. if s = [120, 218, 99, 16, 50, 9, 251, 63, 107, 207, 189, 255, 0, 16, 91, 4, 207]
        then Inr [0, 18, 52, 86, 255, 154, 188, 222, 255] else Inl ZlibError)"
      and depth = 4 and colour = 3]
  note t2 = read_png_ignores_color_mode [where png = "0 # [137 :: byte, 80, 78, 71, 13, 10, 26, 10, 0, 0, 0, 13, 73, 72, 68, 82, 0, 0, 0, 2, 0, 0, 0, 1,
      8, 6, 0, 0, 0, 244, 34, 127, 138, 0, 0, 0, 17, 73, 68, 65, 84, 120, 218, 99, 16, 50, 9,
      251, 63, 107, 207, 189, 255, 0, 16, 91, 4, 207, 232, 241, 203, 185, 0, 0, 0, 0, 73, 69,
      78, 68, 174, 66, 96, 130]"
      and zlib_decompress = "(\<lambda>s. if s = [120, 218, 99, 16, 50, 9, 251, 63, 107, 207, 189, 255, 0, 16, 91, 4, 207]
        then Inr [0, 18, 52, 86, 255, 154, 188, 222, 255] else Inl ZlibError)"]
  have h: "py_slice 8 12 [137 :: byte, 80, 78, 71, 13, 10, 26, 10, 0, 0, 0, 13, 73, 72, 68, 82, 0, 0, 0, 2, 0, 0, 0, 1,
      8, 6, 0, 0, 0, 244, 34, 127, 138, 0, 0, 0, 17, 73, 68, 65, 84, 120, 218, 99, 16, 50, 9,
      251, 63, 107, 207, 189, 255, 0, 16, 91, 4, 207, 232, 241, 203, 185, 0, 0, 0, 0, 73, 69,
      78, 68, 174, 66, 96, 130] = [0, 0, 0, 13]
      \<and> py_slice 12 16 [137 :: byte, 80, 78, 71, 13, 10, 26, 10, 0, 0, 0, 13, 73, 72, 68, 82, 0, 0, 0, 2, 0, 0, 0, 1,
      8, 6, 0, 0, 0, 244, 34, 127, 138, 0, 0, 0, 17, 73, 68, 65, 84, 120, 218, 99, 16, 50, 9,
      251, 63, 107, 207, 189, 255, 0, 16, 91, 4, 207, 232, 241, 203, 185, 0, 0, 0, 0, 73, 69,
      78, 68, 174, 66, 96, 130] = [0x49, 0x48, 0x44, 0x52]"
    by code_simp
  have h2: "take 8 (0 # [137 :: byte, 80, 78, 71, 13, 10, 26, 10, 0, 0, 0, 13, 73, 72, 68, 82, 0, 0, 0, 2, 0, 0, 0, 1,
      8, 6, 0, 0, 0, 244, 34, 127, 138, 0, 0, 0, 17, 73, 68, 65, 84, 120, 218, 99, 16, 50, 9,
      251, 63, 107, 207, 189, 255, 0, 16, 91, 4, 207, 232, 241, 203, 185, 0, 0, 0, 0, 73, 69,
      78, 68, 174, 66, 96, 130]) \<noteq> PNG_signature"
    by code_simp
  have e: "read_png_indexed_data
     (\<lambda>s. if s = [120, 218, 99, 16, 50, 9, 251, 63, 107, 207, 189, 255, 0, 16, 91, 4, 207]
        then Inr [0, 18, 52, 86, 255, 154, 188, 222, 255] else Inl ZlibError)
     [137 :: byte, 80, 78, 71, 13, 10, 26, 10, 0, 0, 0, 13, 73, 72, 68, 82, 0, 0, 0, 2, 0, 0, 0, 1,
      8, 6, 0, 0, 0, 244, 34, 127, 138, 0, 0, 0, 17, 73, 68, 65, 84, 120, 218, 99, 16, 50, 9,
      251, 63, 107, 207, 189, 255, 0, 16, 91, 4, 207, 232, 241, 203, 185, 0, 0, 0, 0, 73, 69,
      78, 68, 174, 66, 96, 130] = Inr (2, 1, [[1, 2]], None)"
    by code_simp
  have c1: "read_png_indexed_data
     (\<lambda>s. if s = [120, 218, 99, 16, 50, 9, 251, 63, 107, 207, 189, 255, 0, 16, 91, 4, 207]
        then Inr [0, 18, 52, 86, 255, 154, 188, 222, 255] else Inl ZlibError)
     ([137 :: byte, 80, 78, 71, 13, 10, 26, 10, 0, 0, 0, 13, 73, 72, 68, 82, 0, 0, 0, 2, 0, 0, 0, 1,
      8, 6, 0, 0, 0, 244, 34, 127, 138, 0, 0, 0, 17, 73, 68, 65, 84, 120, 218, 99, 16, 50, 9,
      251, 63, 107, 207, 189, 255, 0, 16, 91, 4, 207, 232, 241, 203, 185, 0, 0, 0, 0, 73, 69,
      78, 68, 174, 66, 96, 130][24 := 4, 25 := 3])
   = Inr (2, 1, [[1, 2]], None)"
    using t [THEN conjunct1, THEN mp, OF h]
    by (simp only: e)
  have c2: "read_png_indexed_data
     (\<lambda>s. if s = [120, 218, 99, 16, 50, 9, 251, 63, 107, 207, 189, 255, 0, 16, 91, 4, 207]
        then Inr [0, 18, 52, 86, 255, 154, 188, 222, 255] else Inl ZlibError)
     (0 # [137 :: byte, 80, 78, 71, 13, 10, 26, 10, 0, 0, 0, 13, 73, 72, 68, 82, 0, 0, 0, 2, 0, 0, 0, 1,
      8, 6, 0, 0, 0, 244, 34, 127, 138, 0, 0, 0, 17, 73, 68, 65, 84, 120, 218, 99, 16, 50, 9,
      251, 63, 107, 207, 189, 255, 0, 16, 91, 4, 207, 232, 241, 203, 185, 0, 0, 0, 0, 73, 69,
      78, 68, 174, 66, 96, 130])
   = Inl ValueError"
    by (rule t2 [THEN conjunct2, THEN mp, OF h2])
  from c1 c2 show ?thesis by (intro conjI)
qed

text \<open>
  C8 as stated fails: a 2 x 1 image whose header declares 8-bit RGBA (depth 8, colour type
  6), with the scanline 00 12 34 56 FF 9A BC DE FF as image data, is not rejected. Its
  first data byte 0x12, the red channel of the first pixel, comes back as the two 4-bit
  pixels 1 and 2. The decompressor is given by its value on the image data of this file.
\<close>

theorem read_png_accepts_rgba_counterexample:
  "read_png_indexed_data
     (\<lambda>s. if s = [120, 218, 99, 16, 50, 9, 251, 63, 107, 207, 189, 255, 0, 16, 91, 4, 207]
        then Inr [0, 18, 52, 86, 255, 154, 188, 222, 255] else Inl ZlibError)
     [137 :: byte, 80, 78, 71, 13, 10, 26, 10, 0, 0, 0, 13, 73, 72, 68, 82, 0, 0, 0, 2, 0, 0, 0, 1,
      8, 6, 0, 0, 0, 244, 34, 127, 138, 0, 0, 0, 17, 73, 68, 65, 84, 120, 218, 99, 16, 50, 9,
      251, 63, 107, 207, 189, 255, 0, 16, 91, 4, 207, 232, 241, 203, 185, 0, 0, 0, 0, 73, 69,
      78, 68, 174, 66, 96, 130]
   = Inr (2, 1, [[1, 2]], None)"
  by code_simp

text \<open>
  C7, as the code has it. In \<open>render_tileset_with_palettes\<close> a requested key that is
  absent from a store holding key 0 resolves to the palette of key 0, which is the lowest
  key when no key is negative; whatever keys are missing, a job that ends prints its
  progress lines only, so no warning is recorded. \<open>apply_palette_to_png\<close> asks for key 0
  only: it takes that palette when the store has it, and otherwise the palette of the lowest
  key of a non-empty store, without failing.
\<close>

theorem palette_fallback_to_key_zero:
  "(map_of palettes 0 = Some p0 \<and> map_of palettes k = None \<longrightarrow>
      tile_palette palettes k = Inr p0)
   \<and> (map_of palettes 0 = Some p0 \<and> list_all (\<lambda>k. 0 \<le> k) (map fst palettes) \<longrightarrow>
      Min (fst ` set palettes) = 0)
   \<and> (map_sum id fst
        (render_tileset_with_palettes zlib_decompress tiles_png palettes metatiles_bin
           tile_offset) = Inr printed \<longrightarrow>
      printed = [Loading_indexed_PNG, Loading_palettes_from, Loaded_palettes]
        @ (if tile_offset > 0 then [Using_tile_offset] else []) @ [Rendered_tileset])
   \<and> (palettes \<noteq> [] \<and> map_of palettes 0 = None \<longrightarrow>
      map_option Inr (map_of palettes (Min (fst ` set palettes)))
        = Some (default_palette palettes))
   \<and> (map_of palettes 0 = Some p0 \<longrightarrow> default_palette palettes = Inr p0)"
proof (intro conjI impI)
  assume "map_of palettes 0 = Some p0 \<and> map_of palettes k = None"
  then show "tile_palette palettes k = Inr p0"
    by (simp add: tile_palette_def)
next
  assume "map_of palettes 0 = Some p0 \<and> list_all (\<lambda>k. 0 \<le> k) (map fst palettes)"
  then have z: "map_of palettes 0 = Some p0"
    and nn: "list_all (\<lambda>k. 0 \<le> k) (map fst palettes)"
    by blast+
  show "Min (fst ` set palettes) = 0"
    by (rule zero_is_lowest [OF z nn])
next
  assume "map_sum id fst
        (render_tileset_with_palettes zlib_decompress tiles_png palettes metatiles_bin
           tile_offset) = Inr printed"
  then show "printed = [Loading_indexed_PNG, Loading_palettes_from, Loaded_palettes]
        @ (if tile_offset > 0 then [Using_tile_offset] else []) @ [Rendered_tileset]"
    by (rule render_messages)
next
  assume "palettes \<noteq> [] \<and> map_of palettes 0 = None"
  then have ne: "palettes \<noteq> []" and no0: "map_of palettes 0 = None"
    by blast+
  show "map_option Inr (map_of palettes (Min (fst ` set palettes)))
        = Some (default_palette palettes)"
    by (rule default_palette_fallback [OF ne no0])
next
  assume "map_of palettes 0 = Some p0"
  then show "default_palette palettes = Inr p0"
    by (rule default_palette_zero)
qed

theorem palette_fallback_to_key_zero_witness:
  "tile_palette [(0, ([(255, 0, 255), (10, 20, 30), (40, 50, 60)] :: rgb list)), (3, [])] 1 = Inr ([(255, 0, 255), (10, 20, 30), (40, 50, 60)] :: rgb list)
   \<and> Min (fst ` set [(0, ([(255, 0, 255), (10, 20, 30), (40, 50, 60)] :: rgb list)), (3, [])]) = (0 :: int)
   \<and> default_palette [(0, ([(255, 0, 255), (10, 20, 30), (40, 50, 60)] :: rgb list)), (3, [])] = Inr ([(255, 0, 255), (10, 20, 30), (40, 50, 60)] :: rgb list)
   \<and> default_palette [(2, []), (1, ([(255, 0, 255), (10, 20, 30), (40, 50, 60)] :: rgb list))] = Inr ([(255, 0, 255), (10, 20, 30), (40, 50, 60)] :: rgb list)
   \<and> [Loading_indexed_PNG, Loading_palettes_from, Loaded_palettes, Rendered_tileset]
      = [Loading_indexed_PNG, Loading_palettes_from, Loaded_palettes]
        @ (if (0 :: int) > 0 then [Using_tile_offset] else []) @ [Rendered_tileset]"
proof -
  note a = palette_fallback_to_key_zero [where palettes = "[(0, ([(255, 0, 255), (10, 20, 30), (40, 50, 60)] :: rgb list)), (3, [])]"
      and ?p0.0 = "([(255, 0, 255), (10, 20, 30), (40, 50, 60)] :: rgb list)" and k = 1]
  note b = palette_fallback_to_key_zero [where palettes = "[(2, []), (1, ([(255, 0, 255), (10, 20, 30), (40, 50, 60)] :: rgb list))]"]
  note c = palette_fallback_to_key_zero [where palettes = "[(0, ([(255, 0, 255), (10, 20, 30), (40, 50, 60)] :: rgb list))]"
      and zlib_decompress = "(\<lambda>s. if s = [120, 218, 99, 96, 84, 118, 77, 103, 16, 50, 9, 171, 96, 0, 50, 58, 25, 128, 140,
          89, 12, 64, 198, 106, 6, 32, 99, 15, 3, 144, 113, 150, 1, 200, 184, 7, 0, 217, 208, 13,
          241]
        then Inr [0, 1, 35, 69, 103, 0, 18, 52, 86, 120, 0, 35, 69, 103, 137, 0, 52, 86, 120,
          154, 0, 69, 103, 137, 171, 0, 86, 120, 154, 188, 0, 103, 137, 171, 205, 0, 120, 154,
          188, 222]
        else Inl ZlibError)"
      and tiles_png = "[137 :: byte, 80, 78, 71, 13, 10, 26, 10, 0, 0, 0, 13, 73, 72, 68, 82, 0, 0, 0, 8, 0, 0, 0, 8,
      4, 3, 0, 0, 0, 54, 33, 163, 184, 0, 0, 0, 48, 80, 76, 84, 69, 0, 0, 255, 16, 1, 254, 32, 2,
      253, 48, 3, 252, 64, 4, 251, 80, 5, 250, 96, 6, 249, 112, 7, 248, 128, 8, 247, 144, 9, 246,
      160, 10, 245, 176, 11, 244, 192, 12, 243, 208, 13, 242, 224, 14, 241, 240, 15, 240, 177,
      56, 221, 121, 0, 0, 0, 41, 73, 68, 65, 84, 120, 218, 99, 96, 84, 118, 77, 103, 16, 50, 9,
      171, 96, 0, 50, 58, 25, 128, 140, 89, 12, 64, 198, 106, 6, 32, 99, 15, 3, 144, 113, 150,
      1, 200, 184, 7, 0, 217, 208, 13, 241, 185, 183, 41, 48, 0, 0, 0, 0, 73, 69, 78, 68, 174,
      66, 96, 130]"
      and metatiles_bin = "[0, 0x10, 0, 0, 0, 0, 0, 0, 0, 0, 0, 0, 0, 0, 0, 0]" and tile_offset = 0
      and printed = "[Loading_indexed_PNG, Loading_palettes_from, Loaded_palettes,
        Rendered_tileset]"]
  have h1: "map_of [(0, ([(255, 0, 255), (10, 20, 30), (40, 50, 60)] :: rgb list)), (3, [])] (0 :: int) = Some ([(255, 0, 255), (10, 20, 30), (40, 50, 60)] :: rgb list)
      \<and> map_of [(0, ([(255, 0, 255), (10, 20, 30), (40, 50, 60)] :: rgb list)), (3, [])] (1 :: int) = None"
    by simp
  have h2: "map_of [(0, ([(255, 0, 255), (10, 20, 30), (40, 50, 60)] :: rgb list)), (3, [])] (0 :: int) = Some ([(255, 0, 255), (10, 20, 30), (40, 50, 60)] :: rgb list)
      \<and> list_all (\<lambda>k. 0 \<le> k) (map fst [(0 :: int, ([(255, 0, 255), (10, 20, 30), (40, 50, 60)] :: rgb list)), (3, [])])"
    by simp
  have h3: "map_sum id fst
        (render_tileset_with_palettes (\<lambda>s. if s = [120, 218, 99, 96, 84, 118, 77, 103, 16, 50, 9, 171, 96, 0, 50, 58, 25, 128, 140,
          89, 12, 64, 198, 106, 6, 32, 99, 15, 3, 144, 113, 150, 1, 200, 184, 7, 0, 217, 208, 13,
          241]
        then Inr [0, 1, 35, 69, 103, 0, 18, 52, 86, 120, 0, 35, 69, 103, 137, 0, 52, 86, 120,
          154, 0, 69, 103, 137, 171, 0, 86, 120, 154, 188, 0, 103, 137, 171, 205, 0, 120, 154,
          188, 222]
        else Inl ZlibError)
           [137 :: byte, 80, 78, 71, 13, 10, 26, 10, 0, 0, 0, 13, 73, 72, 68, 82, 0, 0, 0, 8, 0, 0, 0, 8,
      4, 3, 0, 0, 0, 54, 33, 163, 184, 0, 0, 0, 48, 80, 76, 84, 69, 0, 0, 255, 16, 1, 254, 32, 2,
      253, 48, 3, 252, 64, 4, 251, 80, 5, 250, 96, 6, 249, 112, 7, 248, 128, 8, 247, 144, 9, 246,
      160, 10, 245, 176, 11, 244, 192, 12, 243, 208, 13, 242, 224, 14, 241, 240, 15, 240, 177,
      56, 221, 121, 0, 0, 0, 41, 73, 68, 65, 84, 120, 218, 99, 96, 84, 118, 77, 103, 16, 50, 9,
      171, 96, 0, 50, 58, 25, 128, 140, 89, 12, 64, 198, 106, 6, 32, 99, 15, 3, 144, 113, 150,
      1, 200, 184, 7, 0, 217, 208, 13, 241, 185, 183, 41, 48, 0, 0, 0, 0, 73, 69, 78, 68, 174,
      66, 96, 130] [(0, ([(255, 0, 255), (10, 20, 30), (40, 50, 60)] :: rgb list))] [0, 0x10, 0, 0, 0, 0, 0, 0, 0, 0, 0, 0, 0, 0, 0, 0] 0)
      = Inr [Loading_indexed_PNG, Loading_palettes_from, Loaded_palettes, Rendered_tileset]"
    by code_simp
  have h4: "[(2 :: int, []), (1, ([(255, 0, 255), (10, 20, 30), (40, 50, 60)] :: rgb list))] \<noteq> [] \<and> map_of [(2 :: int, []), (1, ([(255, 0, 255), (10, 20, 30), (40, 50, 60)] :: rgb list))] 0 = None"
    by simp
  have h5: "map_of [(0, ([(255, 0, 255), (10, 20, 30), (40, 50, 60)] :: rgb list)), (3, [])] (0 :: int) = Some ([(255, 0, 255), (10, 20, 30), (40, 50, 60)] :: rgb list)"
    by simp
  have e4: "map_option Inr (map_of [(2, []), (1, ([(255, 0, 255), (10, 20, 30), (40, 50, 60)] :: rgb list))] (Min (fst ` set [(2 :: int, []), (1, ([(255, 0, 255), (10, 20, 30), (40, 50, 60)] :: rgb list))])))
      = Some (Inr ([(255, 0, 255), (10, 20, 30), (40, 50, 60)] :: rgb list) :: error + rgb list)"
    by simp
  note c1 = a [THEN conjunct1, THEN mp, OF h1]
  note c2 = a [THEN conjunct2, THEN conjunct1, THEN mp, OF h2]
  note c3 = c [THEN conjunct2, THEN conjunct2, THEN conjunct1, THEN mp, OF h3]
  note c4 = b [THEN conjunct2, THEN conjunct2, THEN conjunct2, THEN conjunct1, THEN mp, OF h4]
  note c5 = a [THEN conjunct2, THEN conjunct2, THEN conjunct2, THEN conjunct2, THEN mp, OF h5]
  from c4 have d4: "default_palette [(2, []), (1, ([(255, 0, 255), (10, 20, 30), (40, 50, 60)] :: rgb list))] = Inr ([(255, 0, 255), (10, 20, 30), (40, 50, 60)] :: rgb list)"
    by (simp only: e4 option.inject)
  from c1 c2 c5 d4 c3 show ?thesis by (intro conjI)
qed

text \<open>
  C7 as stated fails. With a store holding palette 1 only, key 0 is absent and the lookup
  raises KeyError instead of falling back to palette 1; so does the whole job for an
  8 x 8 image whose one tile asks for palette 0. And a job whose one tile asks for the
  missing palette 1, with a store holding palette 0 only, ends having printed no warning.
  The decompressor is given by its value on the image data of the example file.
\<close>

theorem missing_palette_key_counterexample:
  "tile_palette [(1, ([(255, 0, 255), (10, 20, 30), (40, 50, 60)] :: rgb list))] 0 = Inl KeyError
   \<and> get_tile_palette_index [0, 0, 0, 0, 0, 0, 0, 0, 0, 0, 0, 0, 0, 0, 0, 0] 0 = 0
   \<and> render_tileset_with_palettes (\<lambda>s. if s = [120, 218, 99, 96, 84, 118, 77, 103, 16, 50, 9, 171, 96, 0, 50, 58, 25, 128, 140,
          89, 12, 64, 198, 106, 6, 32, 99, 15, 3, 144, 113, 150, 1, 200, 184, 7, 0, 217, 208, 13,
          241]
        then Inr [0, 1, 35, 69, 103, 0, 18, 52, 86, 120, 0, 35, 69, 103, 137, 0, 52, 86, 120,
          154, 0, 69, 103, 137, 171, 0, 86, 120, 154, 188, 0, 103, 137, 171, 205, 0, 120, 154,
          188, 222]
        else Inl ZlibError)
        [137 :: byte, 80, 78, 71, 13, 10, 26, 10, 0, 0, 0, 13, 73, 72, 68, 82, 0, 0, 0, 8, 0, 0, 0, 8,
      4, 3, 0, 0, 0, 54, 33, 163, 184, 0, 0, 0, 48, 80, 76, 84, 69, 0, 0, 255, 16, 1, 254, 32, 2,
      253, 48, 3, 252, 64, 4, 251, 80, 5, 250, 96, 6, 249, 112, 7, 248, 128, 8, 247, 144, 9, 246,
      160, 10, 245, 176, 11, 244, 192, 12, 243, 208, 13, 242, 224, 14, 241, 240, 15, 240, 177,
      56, 221, 121, 0, 0, 0, 41, 73, 68, 65, 84, 120, 218, 99, 96, 84, 118, 77, 103, 16, 50, 9,
      171, 96, 0, 50, 58, 25, 128, 140, 89, 12, 64, 198, 106, 6, 32, 99, 15, 3, 144, 113, 150,
      1, 200, 184, 7, 0, 217, 208, 13, 241, 185, 183, 41, 48, 0, 0, 0, 0, 73, 69, 78, 68, 174,
      66, 96, 130] [(1, ([(255, 0, 255), (10, 20, 30), (40, 50, 60)] :: rgb list))] [0, 0, 0, 0, 0, 0, 0, 0, 0, 0, 0, 0, 0, 0, 0, 0] 0 = Inl KeyError
   \<and> get_tile_palette_index [0, 0x10, 0, 0, 0, 0, 0, 0, 0, 0, 0, 0, 0, 0, 0, 0] 0 = 1
   \<and> map_of [(0 :: int, ([(255, 0, 255), (10, 20, 30), (40, 50, 60)] :: rgb list))] 1 = None
   \<and> map_sum id fst
        (render_tileset_with_palettes (\<lambda>s. if s = [120, 218, 99, 96, 84, 118, 77, 103, 16, 50, 9, 171, 96, 0, 50, 58, 25, 128, 140,
          89, 12, 64, 198, 106, 6, 32, 99, 15, 3, 144, 113, 150, 1, 200, 184, 7, 0, 217, 208, 13,
          241]
        then Inr [0, 1, 35, 69, 103, 0, 18, 52, 86, 120, 0, 35, 69, 103, 137, 0, 52, 86, 120,
          154, 0, 69, 103, 137, 171, 0, 86, 120, 154, 188, 0, 103, 137, 171, 205, 0, 120, 154,
          188, 222]
        else Inl ZlibError)
           [137 :: byte, 80, 78, 71, 13, 10, 26, 10, 0, 0, 0, 13, 73, 72, 68, 82, 0, 0, 0, 8, 0, 0, 0, 8,
      4, 3, 0, 0, 0, 54, 33, 163, 184, 0, 0, 0, 48, 80, 76, 84, 69, 0, 0, 255, 16, 1, 254, 32, 2,
      253, 48, 3, 252, 64, 4, 251, 80, 5, 250, 96, 6, 249, 112, 7, 248, 128, 8, 247, 144, 9, 246,
      160, 10, 245, 176, 11, 244, 192, 12, 243, 208, 13, 242, 224, 14, 241, 240, 15, 240, 177,
      56, 221, 121, 0, 0, 0, 41, 73, 68, 65, 84, 120, 218, 99, 96, 84, 118, 77, 103, 16, 50, 9,
      171, 96, 0, 50, 58, 25, 128, 140, 89, 12, 64, 198, 106, 6, 32, 99, 15, 3, 144, 113, 150,
      1, 200, 184, 7, 0, 217, 208, 13, 241, 185, 183, 41, 48, 0, 0, 0, 0, 73, 69, 78, 68, 174,
      66, 96, 130] [(0, ([(255, 0, 255), (10, 20, 30), (40, 50, 60)] :: rgb list))] [0, 0x10, 0, 0, 0, 0, 0, 0, 0, 0, 0, 0, 0, 0, 0, 0] 0)
      = Inr [Loading_indexed_PNG, Loading_palettes_from, Loaded_palettes, Rendered_tileset]"
  by code_simp

end
